theory Spec2Isabelle
  imports Complex_Main
begin

section \<open>Errors, diagnostics and physical constants\<close>

text \<open>
  The Python exceptions that the modelled code can raise.  A function that can raise
  returns \<open>py_error + 'a\<close>, with \<open>Inl\<close> for the exception.  \<open>NonFinite\<close> is not
  an exception: it marks a division by zero between numpy values, which only warns and
  goes on with \<open>inf\<close> or \<open>nan\<close>.  The reals of the model have no such values, so the
  model stops there.
\<close>

datatype py_error = KeyError | ValueError | IndexError | AttributeError | ShapeError | LinAlgError
  | ZeroDivisionError | NonFinite

text \<open>The \<open>logging\<close> records that the code emits: a level and the message.\<close>

datatype log_level = Debug | Info | Warning

type_synonym log_record = "log_level \<times> string"

text \<open>
  The values of \<open>scipy.constants\<close> that the code reads (\<open>c.c\<close>, \<open>c.epsilon_0\<close>,
  \<open>c.h\<close>, \<open>c.k\<close>).  They are not part of the repository, so the model takes them
  as a parameter.
\<close>

record phys =
  c_c :: real
  c_epsilon_0 :: real
  c_h :: real
  c_k :: real

section \<open>The class \<open>beam\<close>\<close>

text \<open>
  A numpy value that may be a scalar or a one-dimensional array (the detuning \<open>w\<close>, the
  power \<open>P\<close>, the amplitude \<open>E\<close>) is held as the list \<open>np.atleast_1d\<close> makes of it:
  a scalar is the list of length one.  Arithmetic on such values is elementwise.
  Floating-point numbers are modelled as reals.

  Where the kind of a value matters it is a \<open>pyval\<close>: \<open>Num\<close> is a Python float and
  \<open>Arr\<close> a numpy value, scalar or array, as its \<open>np.atleast_1d\<close>.  The diameter and
  the area of a beam are Python floats.
\<close>

datatype pyval = Arr "real list" | Num real

definition atleast_1d :: "pyval \<Rightarrow> real list" where
  "atleast_1d v = (case v of Arr xs \<Rightarrow> xs | Num x \<Rightarrow> [x])"

record beam =
  b_w :: "real list"
  b_profile :: string
  b_D :: real
  b_A :: real
  b_P :: "real list"
  b_E :: "real list"

text \<open>The keyword arguments of \<open>beam.__init__\<close>: a key is absent or has a value.\<close>

record kwargs =
  kw_w :: "real list option"
  kw_profile :: "string option"
  kw_D :: "real option"
  kw_A :: "real option"
  kw_E :: "real list option"
  kw_P :: "pyval option"

definition no_kwargs :: kwargs where
  "no_kwargs = \<lparr>kw_w = None, kw_profile = None, kw_D = None, kw_A = None,
     kw_E = None, kw_P = None\<rparr>"

text \<open>
  \<open>setP\<close> stores the power, logs the profile, and derives the amplitude from the
  intensity of the profile; any profile but \<open>flat\<close> and \<open>gaussian\<close> raises
  \<open>KeyError\<close>.  The intensity divides the power by the area: for an area of zero the
  division of a Python float raises \<open>ZeroDivisionError\<close>, and that of a numpy value
  gives \<open>inf\<close> or \<open>nan\<close>.  The log is returned with the result, since a record is
  emitted before the exception.
\<close>

definition division_by_zero :: "pyval \<Rightarrow> py_error" where
  "division_by_zero v = (case v of Num x \<Rightarrow> ZeroDivisionError | Arr xs \<Rightarrow> NonFinite)"

definition setP :: "phys \<Rightarrow> beam \<Rightarrow> pyval \<Rightarrow> log_record list \<times> (py_error + beam)" where
  "setP ph self p =
     (let self1 = self\<lparr>b_P := atleast_1d p\<rparr>;
          lg = [(Info, ''Beam profile used: '' @ b_profile self1)]
      in if b_profile self1 = ''flat'' then
           (if b_A self1 = 0 then (lg, Inl (division_by_zero p))
            else (lg, Inr (self1\<lparr>b_E :=
              map (\<lambda>x. sqrt (2 * (x / b_A self1) / c_c ph / c_epsilon_0 ph))
                (atleast_1d p)\<rparr>)))
         else if b_profile self1 = ''gaussian'' then
           (if b_A self1 = 0 then (lg, Inl (division_by_zero p))
            else (lg, Inr (self1\<lparr>b_E :=
              map (\<lambda>x. sqrt (2 * (2 * x / b_A self1) / c_c ph / c_epsilon_0 ph))
                (atleast_1d p)\<rparr>)))
         else (lg, Inl KeyError))"

definition setE :: "phys \<Rightarrow> beam \<Rightarrow> real list \<Rightarrow> beam" where
  "setE ph self e =
     self\<lparr>b_E := e, b_P := map (\<lambda>x. b_A self / 4 * c_c ph * c_epsilon_0 ph * x ^ 2) e\<rparr>"

text \<open>
  \<open>beam.__init__\<close>: the keys are read in the order of the source, so a missing
  \<open>w\<close> raises before the profile is looked at, a missing \<open>A\<close> (when \<open>D\<close> is
  absent too) after it, and a missing \<open>P\<close> (when \<open>E\<close> is absent too) last.
\<close>

definition beam_init :: "phys \<Rightarrow> kwargs \<Rightarrow> log_record list \<times> (py_error + beam)" where
  "beam_init ph kw =
     (case kw_w kw of
        None \<Rightarrow> ([], Inl KeyError)
      | Some wv \<Rightarrow>
          (let (lg1, prof) =
                 (case kw_profile kw of
                    Some pr \<Rightarrow> ([], pr)
                  | None \<Rightarrow> ([(Warning, ''Use Gaussian intensity profile'')], ''gaussian''))
           in case (case kw_D kw of
                      Some d \<Rightarrow> Some (d, pi * d ^ 2 / 4)
                    | None \<Rightarrow>
                        (case kw_A kw of
                           Some a \<Rightarrow> Some (2 * sqrt (a / pi), a)
                         | None \<Rightarrow> None)) of
                None \<Rightarrow> (lg1, Inl KeyError)
              | Some (d, a) \<Rightarrow>
                  (let self = \<lparr>b_w = wv, b_profile = prof, b_D = d, b_A = a,
                                b_P = [], b_E = []\<rparr>
                   in case kw_E kw of
                        Some e \<Rightarrow> (lg1, Inr (setE ph self e))
                      | None \<Rightarrow>
                          (case kw_P kw of
                             None \<Rightarrow> (lg1, Inl KeyError)
                           | Some p \<Rightarrow>
                               (let (lg2, r) = setP ph self p in (lg1 @ lg2, r))))))"

text \<open>\<open>beam.__iter__\<close> yields the three values \<open>w\<close>, \<open>P\<close>, \<open>D\<close>.\<close>

definition beam_iter :: "beam \<Rightarrow> pyval list" where
  "beam_iter self = [Arr (b_w self), Arr (b_P self), Num (b_D self)]"

section \<open>Beam construction: profile default and profile errors\<close>

lemma setP_other_profile:
  "b_profile self \<noteq> ''flat'' \<Longrightarrow> b_profile self \<noteq> ''gaussian'' \<Longrightarrow>
   snd (setP ph self p) = Inl KeyError"
  by (simp add: setP_def Let_def)

lemma beam_init_default_profile:
  "kw_w kw = Some wv \<Longrightarrow> kw_profile kw = None \<Longrightarrow>
   (Warning, ''Use Gaussian intensity profile'') \<in> set (fst (beam_init ph kw))"
  by (auto simp: beam_init_def Let_def setP_def split: option.splits prod.splits if_splits)

lemma beam_init_default_gaussian:
  "kw_profile kw = None \<Longrightarrow> beam_init ph kw = (lg, Inr b) \<Longrightarrow> b_profile b = ''gaussian''"
  by (auto simp: beam_init_def Let_def setP_def setE_def split: option.splits prod.splits if_splits)

text \<open>
  A set of constants for evaluating the model at concrete inputs: the CODATA 2018 values
  that \<open>scipy.constants\<close> ships.  The general theorems hold for every \<open>phys\<close>.
\<close>

definition scipy_constants :: phys where
  "scipy_constants = \<lparr>c_c = 299792458, c_epsilon_0 = 88541878128 / 10 ^ 22,
     c_h = 662607015 / 10 ^ 42, c_k = 1380649 / 10 ^ 29\<rparr>"

text \<open>
  The area that \<open>__init__\<close> stores: computed from the diameter where \<open>D\<close> is given, the
  value of \<open>A\<close> otherwise.
\<close>

definition kw_area :: "kwargs \<Rightarrow> real option" where
  "kw_area kw = (case kw_D kw of Some d \<Rightarrow> Some (pi * d ^ 2 / 4) | None \<Rightarrow> kw_A kw)"

lemma beam_init_zero_area:
  "kw_w kw = Some wv \<Longrightarrow> kw_area kw = Some 0 \<Longrightarrow> kw_E kw = None \<Longrightarrow> kw_P kw = Some (Num x) \<Longrightarrow>
   kw_profile kw = None \<Longrightarrow> snd (beam_init ph kw) = Inl ZeroDivisionError"
  by (cases "kw_D kw")
    (auto simp: beam_init_def kw_area_def Let_def setP_def division_by_zero_def)

text \<open>
  Claim C10.  When the keyword arguments have \<open>w\<close> but no \<open>profile\<close> key, the warning
  \<open>Use Gaussian intensity profile\<close> is among the log records emitted, and every beam
  that the construction returns has the profile \<open>gaussian\<close>.  The construction does return
  a beam when there are also a diameter or an area, and an amplitude, or else a power
  together with an area that is not zero (a power over an area of zero raises
  \<open>ZeroDivisionError\<close>, see \<open>beam_init_zero_area\<close>).  For every profile other than
  \<open>flat\<close> and \<open>gaussian\<close>, \<open>setP\<close> raises \<open>KeyError\<close> and returns no beam.
\<close>

theorem beam_default_profile_and_setP_KeyError:
  "(kw_w kw \<noteq> None \<and> kw_profile kw = None \<longrightarrow>
      (Warning, ''Use Gaussian intensity profile'') \<in> set (fst (beam_init ph kw)) \<and>
      (\<forall>b. snd (beam_init ph kw) = Inr b \<longrightarrow> b_profile b = ''gaussian'')) \<and>
   (kw_w kw \<noteq> None \<and> kw_profile kw = None \<and> kw_area kw \<noteq> None \<and>
    (kw_E kw \<noteq> None \<or> (kw_P kw \<noteq> None \<and> kw_area kw \<noteq> Some 0)) \<longrightarrow>
      (\<exists>b. snd (beam_init ph kw) = Inr b \<and> b_profile b = ''gaussian'')) \<and>
   (b_profile self \<noteq> ''flat'' \<and> b_profile self \<noteq> ''gaussian'' \<longrightarrow>
      snd (setP ph self p) = Inl KeyError)"
proof (intro conjI impI allI)
  assume h: "kw_w kw \<noteq> None \<and> kw_profile kw = None"
  then obtain wv where w: "kw_w kw = Some wv" by auto
  from h have pr: "kw_profile kw = None" by simp
  show "(Warning, ''Use Gaussian intensity profile'') \<in> set (fst (beam_init ph kw))"
    using w pr by (rule beam_init_default_profile)
  fix b assume "snd (beam_init ph kw) = Inr b"
  then have "beam_init ph kw = (fst (beam_init ph kw), Inr b)"
    by (metis prod.collapse)
  with pr show "b_profile b = ''gaussian''"
    by (rule beam_init_default_gaussian)
next
  assume h: "kw_w kw \<noteq> None \<and> kw_profile kw = None \<and> kw_area kw \<noteq> None \<and>
    (kw_E kw \<noteq> None \<or> (kw_P kw \<noteq> None \<and> kw_area kw \<noteq> Some 0))"
  then show "\<exists>b. snd (beam_init ph kw) = Inr b \<and> b_profile b = ''gaussian''"
    by (cases "kw_w kw"; cases "kw_D kw"; cases "kw_A kw"; cases "kw_E kw"; cases "kw_P kw")
      (simp_all add: beam_init_def kw_area_def Let_def setE_def setP_def)
next
  assume "b_profile self \<noteq> ''flat'' \<and> b_profile self \<noteq> ''gaussian''"
  then show "snd (setP ph self p) = Inl KeyError"
    by (simp add: setP_other_profile)
qed

theorem beam_default_profile_and_setP_KeyError_witness:
  "(Warning, ''Use Gaussian intensity profile'') \<in>
     set (fst (beam_init scipy_constants
            (no_kwargs\<lparr>kw_w := Some [0], kw_D := Some 1, kw_P := Some (Num 1)\<rparr>))) \<and>
   (\<exists>b. snd (beam_init scipy_constants
            (no_kwargs\<lparr>kw_w := Some [0], kw_D := Some 1, kw_P := Some (Num 1)\<rparr>)) = Inr b \<and>
        b_profile b = ''gaussian'') \<and>
   snd (setP scipy_constants
          \<lparr>b_w = [0], b_profile = ''round'', b_D = 1, b_A = 1, b_P = [], b_E = []\<rparr> (Num 1))
     = Inl KeyError"
  using beam_default_profile_and_setP_KeyError
    [of "no_kwargs\<lparr>kw_w := Some [0], kw_D := Some 1, kw_P := Some (Num 1)\<rparr>"
        scipy_constants
        "\<lparr>b_w = [0], b_profile = ''round'', b_D = 1, b_A = 1, b_P = [], b_E = []\<rparr>" "Num 1"]
  by (simp add: no_kwargs_def kw_area_def)

section \<open>Round trip between power and amplitude\<close>

text \<open>
  The scenario of the round trip: a beam is constructed from the area \<open>a\<close> and the power
  \<open>p\<close>, its amplitude is read back, a second beam is constructed from that amplitude,
  and the power of the second beam is returned.
\<close>

definition power_roundtrip :: "phys \<Rightarrow> string \<Rightarrow> real \<Rightarrow> real list \<Rightarrow> py_error + real list" where
  "power_roundtrip ph prof a p =
     (case snd (beam_init ph
            (no_kwargs\<lparr>kw_w := Some [0], kw_profile := Some prof, kw_A := Some a,
               kw_P := Some (Arr p)\<rparr>)) of
        Inl e \<Rightarrow> Inl e
      | Inr b1 \<Rightarrow>
          (case snd (beam_init ph
                 (no_kwargs\<lparr>kw_w := Some [0], kw_profile := Some prof, kw_A := Some a,
                    kw_E := Some (b_E b1)\<rparr>)) of
             Inl e \<Rightarrow> Inl e
           | Inr b2 \<Rightarrow> Inr (b_P b2)))"

lemma amplitude_gaussian_back:
  fixes a cc eps x :: real
  assumes "0 < a" "0 < cc" "0 < eps" "0 \<le> x"
  shows "a / 4 * cc * eps * (sqrt (2 * (2 * x / a) / cc / eps)) ^ 2 = x"
proof -
  have "0 \<le> 2 * (2 * x / a) / cc / eps" using assms by simp
  then have "(sqrt (2 * (2 * x / a) / cc / eps)) ^ 2 = 2 * (2 * x / a) / cc / eps"
    by (rule real_sqrt_pow2)
  then show ?thesis using assms by (simp add: field_simps)
qed

lemma amplitude_flat_back:
  fixes a cc eps x :: real
  assumes "0 < a" "0 < cc" "0 < eps" "0 \<le> x"
  shows "a / 4 * cc * eps * (sqrt (2 * (x / a) / cc / eps)) ^ 2 = x / 2"
proof -
  have "0 \<le> 2 * (x / a) / cc / eps" using assms by simp
  then have "(sqrt (2 * (x / a) / cc / eps)) ^ 2 = 2 * (x / a) / cc / eps"
    by (rule real_sqrt_pow2)
  then show ?thesis using assms by (simp add: field_simps)
qed

lemma power_roundtrip_gaussian:
  assumes "0 < a" "0 < c_c ph" "0 < c_epsilon_0 ph" "\<forall>x \<in> set p. 0 \<le> x"
  shows "power_roundtrip ph ''gaussian'' a p = Inr p"
proof -
  have "map (\<lambda>x. a / 4 * c_c ph * c_epsilon_0 ph *
            (sqrt (2 * (2 * x / a) / c_c ph / c_epsilon_0 ph)) ^ 2) p = map (\<lambda>x. x) p"
    by (rule map_cong [OF refl]) (use assms in \<open>simp add: amplitude_gaussian_back\<close>)
  then show ?thesis
    using assms(1)
    by (simp add: power_roundtrip_def beam_init_def no_kwargs_def Let_def setP_def setE_def
        atleast_1d_def comp_def)
qed

text \<open>
  Claim C4.  The round trip reproduces the power for the \<open>gaussian\<close> profile
  (\<open>power_roundtrip_gaussian\<close>), but not for the \<open>flat\<close> profile: \<open>setP\<close> derives the
  amplitude from \<open>I = P/A\<close>, while \<open>setE\<close> converts every amplitude back with the factor
  \<open>A/4\<close> of the \<open>gaussian\<close> profile, whatever the profile is.  For a positive area and
  non-negative powers the \<open>flat\<close> round trip returns half of each power.
\<close>

theorem power_roundtrip_flat_halves:
  assumes "0 < a" "0 < c_c ph" "0 < c_epsilon_0 ph" "\<forall>x \<in> set p. 0 \<le> x"
  shows "power_roundtrip ph ''flat'' a p = Inr (map (\<lambda>x. x / 2) p)"
proof -
  have "map (\<lambda>x. a / 4 * c_c ph * c_epsilon_0 ph *
            (sqrt (2 * (x / a) / c_c ph / c_epsilon_0 ph)) ^ 2) p = map (\<lambda>x. x / 2) p"
    by (rule map_cong [OF refl]) (use assms in \<open>simp add: amplitude_flat_back\<close>)
  then show ?thesis
    using assms(1)
    by (simp add: power_roundtrip_def beam_init_def no_kwargs_def Let_def setP_def setE_def
        atleast_1d_def comp_def)
qed

theorem power_roundtrip_flat_halves_witness:
  "power_roundtrip scipy_constants ''flat'' 1 [1] = Inr [1 / 2]"
  using power_roundtrip_flat_halves [of 1 scipy_constants "[1]"]
  by (simp add: scipy_constants_def)

section \<open>Construction of an atomic system: element, line and reference levels\<close>

text \<open>The class \<open>state\<close>: the quantum numbers of a reference level.\<close>

record state =
  st_n :: int
  st_l :: int
  st_j :: real
  st_f :: "real option"

text \<open>The atom classes of the atomic database that \<open>__init__\<close> selects from.\<close>

datatype atom = Lithium6 | Lithium7 | Sodium | Potassium39 | Potassium40 | Potassium41
  | Rubidium85 | Rubidium87 | Caesium

text \<open>
  The entries of \<open>p_dict\<close> that the modelled code reads.  The keys that
  \<open>p_dict_defaults\<close> supplies are held as values; \<open>Dline\<close>, \<open>collisions\<close>,
  \<open>Gammat\<close> and \<open>symbolic_transit\<close> have no default, so they may be absent.
\<close>

record p_dict =
  pd_Dline :: "string option"
  pd_K40frac :: real
  pd_K41frac :: real
  pd_rb85frac :: real
  pd_GammaBuf :: real
  pd_collisions :: "string option"
  pd_symbolic_transit :: bool
  pd_Gammat :: "real option"

text \<open>\<open>str.lower\<close> on the ASCII letters.\<close>

definition lower_char :: "char \<Rightarrow> char" where
  "lower_char ch =
     (if 65 \<le> (of_char ch :: nat) \<and> (of_char ch :: nat) \<le> 90
      then char_of ((of_char ch :: nat) + 32) else ch)"

definition lower :: "string \<Rightarrow> string" where
  "lower s = map lower_char s"

text \<open>
  The chain of \<open>if\<close>/\<open>elif\<close> on the element identifier: the atom and the
  abundance, where the branch sets one; \<open>ValueError\<close> for any other identifier.
\<close>

definition select_atom :: "string \<Rightarrow> p_dict \<Rightarrow> py_error + (atom \<times> real option)" where
  "select_atom element pd =
     (let e = lower element in
      if e \<in> set [''li6'', ''lithium6''] then Inr (Lithium6, None)
      else if e \<in> set [''li7'', ''lithium7''] then Inr (Lithium7, None)
      else if e \<in> set [''na'', ''na23'', ''sodium'', ''sodium23''] then Inr (Sodium, None)
      else if e \<in> set [''k39'', ''potassium39''] then
        Inr (Potassium39, Some (1 - (pd_K40frac pd + pd_K41frac pd) / 100))
      else if e \<in> set [''k40'', ''potassium40''] then
        Inr (Potassium40, Some (pd_K40frac pd / 100))
      else if e \<in> set [''k41'', ''potassium41''] then
        Inr (Potassium41, Some (pd_K41frac pd / 100))
      else if e \<in> set [''rb85'', ''rubidium85''] then
        Inr (Rubidium85, Some (pd_rb85frac pd / 100))
      else if e \<in> set [''rb87'', ''rubidium87''] then
        Inr (Rubidium87, Some (1 - pd_rb85frac pd / 100))
      else if e \<in> set [''cs'', ''cs133'', ''caesium'', ''caesium133''] then Inr (Caesium, None)
      else Inl ValueError)"

text \<open>The identifiers that some branch of the chain accepts, in lower case.\<close>

definition supported_elements :: "string list" where
  "supported_elements =
     [''li6'', ''lithium6'', ''li7'', ''lithium7'', ''na'', ''na23'', ''sodium'', ''sodium23'',
      ''k39'', ''potassium39'', ''k40'', ''potassium40'', ''k41'', ''potassium41'',
      ''rb85'', ''rubidium85'', ''rb87'', ''rubidium87'',
      ''cs'', ''cs133'', ''caesium'', ''caesium133'']"

text \<open>
  What \<open>__init__\<close> has set when it reaches \<open>self.n_states\<close>: the atom, the abundance (an
  attribute that only some branches create), the reference levels and the dictionary,
  whose \<open>Dline\<close> entry the custom-level branch overwrites.
\<close>

record levels_setup =
  ls_atom :: atom
  ls_abundance :: "real option"
  ls_states :: "state list"
  ls_p_dict :: p_dict

text \<open>
  The first part of \<open>atomicSystem.__init__\<close>, up to the choice of the reference levels.
  \<open>groundStateN\<close> is the atomic database's principal quantum number of the ground state.
  With explicit \<open>states\<close> the code compares \<open>states[1].j - states[1].j\<close> with 0.9 and 1.1;
  reading \<open>states[1]\<close> of a shorter list raises \<open>IndexError\<close>.
\<close>

definition init_levels ::
  "(atom \<Rightarrow> int) \<Rightarrow> string \<Rightarrow> p_dict \<Rightarrow> state list option \<Rightarrow>
   log_record list \<times> (py_error + levels_setup)" where
  "init_levels groundStateN element pd states =
     (case select_atom element pd of
        Inl e \<Rightarrow> ([], Inl e)
      | Inr (atm, ab) \<Rightarrow>
          (case states of
             None \<Rightarrow>
               (let groundState = \<lparr>st_n = groundStateN atm, st_l = 0, st_j = 1 / 2, st_f = None\<rparr>
                in case pd_Dline pd of
                     None \<Rightarrow> ([], Inl KeyError)
                   | Some dl \<Rightarrow>
                       if dl = ''D1'' then
                         ([], Inr \<lparr>ls_atom = atm, ls_abundance = ab,
                            ls_states = [groundState,
                              \<lparr>st_n = groundStateN atm, st_l = 1, st_j = 1 / 2, st_f = None\<rparr>],
                            ls_p_dict = pd\<rparr>)
                       else if dl = ''D2'' then
                         ([], Inr \<lparr>ls_atom = atm, ls_abundance = ab,
                            ls_states = [groundState,
                              \<lparr>st_n = groundStateN atm, st_l = 1, st_j = 3 / 2, st_f = None\<rparr>],
                            ls_p_dict = pd\<rparr>)
                       else ([], Inl ValueError))
           | Some sts \<Rightarrow>
               (let lg = [(Warning, ''States have been explicitly given, override Dline parameter'')]
                in if length sts < 2 then (lg, Inl IndexError)
                   else if st_j (sts ! 1) - st_j (sts ! 1) < 9 / 10 then
                     (lg, Inr \<lparr>ls_atom = atm, ls_abundance = ab, ls_states = sts,
                        ls_p_dict = pd\<lparr>pd_Dline := Some ''D1''\<rparr>\<rparr>)
                   else if st_j (sts ! 1) - st_j (sts ! 1) < 11 / 10 then
                     (lg, Inr \<lparr>ls_atom = atm, ls_abundance = ab, ls_states = sts,
                        ls_p_dict = pd\<lparr>pd_Dline := Some ''D2''\<rparr>\<rparr>)
                   else (lg, Inl ValueError))))"

lemma select_atom_unsupported:
  "lower element \<notin> set supported_elements \<Longrightarrow> select_atom element pd = Inl ValueError"
  by (simp add: select_atom_def supported_elements_def Let_def)

lemma select_atom_supported:
  "lower element \<in> set supported_elements \<Longrightarrow> \<exists>r. select_atom element pd = Inr r"
  by (auto simp: select_atom_def supported_elements_def Let_def)

lemma init_levels_unsupported_element:
  "lower element \<notin> set supported_elements \<Longrightarrow>
   snd (init_levels gN element pd states) = Inl ValueError"
  by (simp add: init_levels_def select_atom_unsupported)

lemma init_levels_unsupported_line:
  "lower element \<in> set supported_elements \<Longrightarrow> pd_Dline pd = Some dl \<Longrightarrow>
   dl \<noteq> ''D1'' \<Longrightarrow> dl \<noteq> ''D2'' \<Longrightarrow>
   snd (init_levels gN element pd None) = Inl ValueError"
  using select_atom_supported [of element pd]
  by (auto simp: init_levels_def Let_def)

text \<open>
  Claim C8.  An unsupported element and an unsupported line selector do raise
  \<open>ValueError\<close> (\<open>init_levels_unsupported_element\<close>, \<open>init_levels_unsupported_line\<close>).
  With explicit reference levels, however, the difference that is tested is
  \<open>states[1].j - states[1].j\<close>, which is 0 whatever the levels are: for a supported element
  and any list of at least two levels the construction goes on with \<open>Dline\<close> set to
  \<open>D1\<close>, and the branch that raises \<open>ValueError('Unsupported Dline')\<close> is never taken.
\<close>

theorem init_levels_custom_states_never_fail:
  assumes "lower element \<in> set supported_elements" and "2 \<le> length sts"
  shows "\<exists>r. snd (init_levels gN element pd (Some sts)) = Inr r \<and>
             pd_Dline (ls_p_dict r) = Some ''D1'' \<and> ls_states r = sts"
proof -
  obtain atm ab where "select_atom element pd = Inr (atm, ab)"
    using select_atom_supported [OF assms(1), of pd] by auto
  then show ?thesis
    using assms(2) by (simp add: init_levels_def Let_def)
qed

theorem init_levels_custom_states_never_fail_witness:
  "\<exists>r. snd (init_levels (\<lambda>a. 5) ''Rb87''
               \<lparr>pd_Dline = Some ''D2'', pd_K40frac = 1 / 100, pd_K41frac = 673 / 100,
                 pd_rb85frac = 7217 / 100, pd_GammaBuf = 0, pd_collisions = None,
                 pd_symbolic_transit = False, pd_Gammat = None\<rparr>
               (Some [\<lparr>st_n = 5, st_l = 0, st_j = 1 / 2, st_f = None\<rparr>,
                      \<lparr>st_n = 5, st_l = 2, st_j = 5 / 2, st_f = None\<rparr>])) = Inr r \<and>
       pd_Dline (ls_p_dict r) = Some ''D1'' \<and>
       ls_states r = [\<lparr>st_n = 5, st_l = 0, st_j = 1 / 2, st_f = None\<rparr>,
                      \<lparr>st_n = 5, st_l = 2, st_j = 5 / 2, st_f = None\<rparr>]"
proof -
  have h: "lower ''Rb87'' \<in> set supported_elements"
    by code_simp
  show ?thesis
    using init_levels_custom_states_never_fail
      [OF h, where sts = "[\<lparr>st_n = 5, st_l = 0, st_j = 1 / 2, st_f = None\<rparr>,
                            \<lparr>st_n = 5, st_l = 2, st_j = 5 / 2, st_f = None\<rparr>]"
         and gN = "\<lambda>a. 5"
         and pd = "\<lparr>pd_Dline = Some ''D2'', pd_K40frac = 1 / 100, pd_K41frac = 673 / 100,
                 pd_rb85frac = 7217 / 100, pd_GammaBuf = 0, pd_collisions = None,
                 pd_symbolic_transit = False, pd_Gammat = None\<rparr>"]
    by simp
qed

section \<open>The Lindblad operators\<close>

text \<open>
  The symbolic matrix \<open>self.r\<close> holds one symbol \<open>rho_ij\<close> for each pair of levels.  A
  sympy expression in these symbols is modelled by its value under a valuation of the
  symbols (a \<open>rho\<close>), and a symbolic matrix by the matrix of these values: the functions
  below take the valuation \<open>r\<close> where the source reads \<open>self.r[i, j]\<close>.  Arrays with
  two indices are functions on pairs of indices; an \<open>N \<times> N\<close> array is read on
  indices below \<open>N\<close> only.
\<close>

type_synonym rho = "nat \<times> nat \<Rightarrow> complex"
type_synonym 'a matrix = "nat \<times> nat \<Rightarrow> 'a"

text \<open>
  \<open>Lindblad_decay\<close> and \<open>Lindblad_dephase\<close>, the local functions of
  \<open>generateMatrices\<close>: the loops over \<open>i\<close>, \<open>j\<close> and \<open>k\<close> are folds over
  \<open>range(total_levels)\<close>, and \<open>L[i, j] += e\<close> is an update of the matrix at one place.
  The local \<open>c\<close> of the source is never read.
\<close>

definition Lindblad_decay :: "nat \<Rightarrow> real matrix \<Rightarrow> rho \<Rightarrow> complex matrix" where
  "Lindblad_decay N rates r =
     fold (\<lambda>i. fold (\<lambda>j L.
             let L1 = L((i, i) := L (i, i) +
                        (of_real (rates (j, i)) * r (j, j) - of_real (rates (i, j)) * r (i, i)))
             in if i \<noteq> j then
                  fold (\<lambda>k L2. L2((i, j) := L2 (i, j) -
                          of_real (1 / 2 * (rates (i, k) + rates (j, k))) * r (i, j)))
                    [0..<N] L1
                else L1)
           [0..<N])
       [0..<N] (\<lambda>p. 0)"

definition Lindblad_dephase :: "nat \<Rightarrow> real matrix \<Rightarrow> rho \<Rightarrow> complex matrix" where
  "Lindblad_dephase N rates r =
     fold (\<lambda>i. fold (\<lambda>j L.
             if i \<noteq> j then L((i, j) := L (i, j) - of_real (1 / 2 * rates (i, j)) * r (i, j))
             else L)
           [0..<N])
       [0..<N] (\<lambda>p. 0)"

subsection \<open>What the loops compute\<close>

lemma fold_sub_at:
  "fold (\<lambda>k L. L(p := L p - h k)) ks L = L(p := L p - sum_list (map h ks))"
  for L :: "'a \<Rightarrow> 'b::ab_group_add"
  by (induction ks arbitrary: L) (simp_all add: algebra_simps)

text \<open>The body of the loop over \<open>j\<close>, for a fixed row \<open>i\<close>.\<close>

definition decay_body :: "nat \<Rightarrow> real matrix \<Rightarrow> rho \<Rightarrow> nat \<Rightarrow> nat \<Rightarrow> complex matrix \<Rightarrow> complex matrix" where
  "decay_body N rates r i j L =
     (let L1 = L((i, i) := L (i, i) +
                        (of_real (rates (j, i)) * r (j, j) - of_real (rates (i, j)) * r (i, i)))
             in if i \<noteq> j then
                  fold (\<lambda>k L2. L2((i, j) := L2 (i, j) -
                          of_real (1 / 2 * (rates (i, k) + rates (j, k))) * r (i, j)))
                    [0..<N] L1
                else L1)"

definition gain :: "real matrix \<Rightarrow> rho \<Rightarrow> nat \<Rightarrow> nat \<Rightarrow> complex" where
  "gain rates r i j = of_real (rates (j, i)) * r (j, j) - of_real (rates (i, j)) * r (i, i)"

definition damp :: "nat \<Rightarrow> real matrix \<Rightarrow> rho \<Rightarrow> nat \<Rightarrow> nat \<Rightarrow> complex" where
  "damp N rates r i j = (\<Sum>k\<leftarrow>[0..<N]. of_real (1 / 2 * (rates (i, k) + rates (j, k))) * r (i, j))"

lemma decay_body_apply:
  "decay_body N rates r i j L (a, b) =
     (if a = i \<and> b = i then L (i, i) + gain rates r i j
      else if a = i \<and> b = j then L (i, j) - damp N rates r i j
      else L (a, b))"
  by (auto simp: decay_body_def Let_def fold_sub_at gain_def damp_def)

lemma decay_row_apply:
  "distinct js \<Longrightarrow> fold (decay_body N rates r i) js L (a, b) =
     (if a = i then
        (if b = i then L (i, i) + (\<Sum>j\<leftarrow>js. gain rates r i j)
         else if b \<in> set js then L (i, b) - damp N rates r i b else L (i, b))
      else L (a, b))"
proof (induction js arbitrary: a b rule: rev_induct)
  case Nil
  then show ?case by simp
next
  case (snoc j js)
  then show ?case by (auto simp: decay_body_apply)
qed

lemma decay_rows_apply:
  "distinct rows \<Longrightarrow> distinct js \<Longrightarrow>
   fold (\<lambda>i. fold (decay_body N rates r i) js) rows (\<lambda>p. 0) (a, b) =
     (if a \<in> set rows then
        (if b = a then (\<Sum>j\<leftarrow>js. gain rates r a j)
         else if b \<in> set js then - damp N rates r a b else 0)
      else 0)"
proof (induction rows arbitrary: a b rule: rev_induct)
  case Nil
  then show ?case by simp
next
  case (snoc i rows)
  then show ?case by (auto simp: decay_row_apply)
qed

lemma Lindblad_decay_apply:
  "Lindblad_decay N rates r (a, b) =
     (if a < N \<and> b < N then
        (if b = a then (\<Sum>j\<leftarrow>[0..<N]. gain rates r a j) else - damp N rates r a b)
      else 0)"
proof -
  have "Lindblad_decay N rates r = fold (\<lambda>i. fold (decay_body N rates r i) [0..<N]) [0..<N] (\<lambda>p. 0)"
    unfolding Lindblad_decay_def decay_body_def ..
  then show ?thesis by (simp add: decay_rows_apply)
qed


definition dephase_body :: "real matrix \<Rightarrow> rho \<Rightarrow> nat \<Rightarrow> nat \<Rightarrow> complex matrix \<Rightarrow> complex matrix" where
  "dephase_body rates r i j L =
     (if i \<noteq> j then L((i, j) := L (i, j) - of_real (1 / 2 * rates (i, j)) * r (i, j)) else L)"

lemma dephase_row_apply:
  "distinct js \<Longrightarrow> fold (dephase_body rates r i) js L (a, b) =
     (if a = i \<and> b \<noteq> i \<and> b \<in> set js then L (i, b) - of_real (1 / 2 * rates (i, b)) * r (i, b)
      else L (a, b))"
proof (induction js arbitrary: a b rule: rev_induct)
  case Nil
  then show ?case by simp
next
  case (snoc j js)
  then show ?case by (auto simp: dephase_body_def)
qed

lemma dephase_rows_apply:
  "distinct rows \<Longrightarrow> distinct js \<Longrightarrow>
   fold (\<lambda>i. fold (dephase_body rates r i) js) rows (\<lambda>p. 0) (a, b) =
     (if a \<in> set rows \<and> b \<noteq> a \<and> b \<in> set js then - (of_real (1 / 2 * rates (a, b)) * r (a, b))
      else 0)"
proof (induction rows arbitrary: a b rule: rev_induct)
  case Nil
  then show ?case by simp
next
  case (snoc i rows)
  then show ?case by (auto simp: dephase_row_apply)
qed

lemma Lindblad_dephase_apply:
  "Lindblad_dephase N rates r (a, b) =
     (if a < N \<and> b < N \<and> b \<noteq> a then - (of_real (1 / 2 * rates (a, b)) * r (a, b)) else 0)"
proof -
  have "Lindblad_dephase N rates r = fold (\<lambda>i. fold (dephase_body rates r i) [0..<N]) [0..<N] (\<lambda>p. 0)"
    unfolding Lindblad_dephase_def dephase_body_def ..
  then show ?thesis by (simp add: dephase_rows_apply)
qed

lemma sum_list_upt_lessThan: "(\<Sum>j\<leftarrow>[0..<N]. f j) = (\<Sum>j<N. f j)"
  for f :: "nat \<Rightarrow> 'a::comm_monoid_add"
  by (simp add: interv_sum_list_conv_sum_set_nat atLeast0LessThan)

text \<open>
  Claim C2.  For a rate matrix \<open>\<Gamma>\<close> over \<open>N\<close> levels, \<open>Lindblad_decay\<close> has at the
  diagonal place \<open>i\<close> the gain \<open>\<Sum>j. \<Gamma>[j,i] x_jj - \<Gamma>[i,j] x_ii\<close>, and at an
  off-diagonal place \<open>(i, j)\<close> the loss \<open>0.5 (\<Sum>k. \<Gamma>[i,k] + \<Gamma>[j,k]) x_ij\<close>, that is
  the entry is minus that term; \<open>Lindblad_dephase\<close> has at an off-diagonal place the
  damping \<open>0.5 \<Gamma>[i,j] x_ij\<close>, again with the minus sign of a loss, and 0 at every
  diagonal place.
\<close>

theorem Lindblad_operators_entries:
  "(i < N \<longrightarrow>
      Lindblad_decay N \<Gamma> x (i, i) =
        (\<Sum>j<N. of_real (\<Gamma> (j, i)) * x (j, j) - of_real (\<Gamma> (i, j)) * x (i, i))) \<and>
   (i < N \<and> j < N \<and> i \<noteq> j \<longrightarrow>
      Lindblad_decay N \<Gamma> x (i, j) =
        - (1 / 2 * (\<Sum>k<N. of_real (\<Gamma> (i, k) + \<Gamma> (j, k))) * x (i, j))) \<and>
   (i < N \<and> j < N \<and> i \<noteq> j \<longrightarrow>
      Lindblad_dephase N \<Gamma> x (i, j) = - (1 / 2 * of_real (\<Gamma> (i, j)) * x (i, j))) \<and>
   Lindblad_dephase N \<Gamma> x (i, i) = 0"
proof (intro conjI impI)
  assume "i < N"
  then show "Lindblad_decay N \<Gamma> x (i, i) =
        (\<Sum>j<N. of_real (\<Gamma> (j, i)) * x (j, j) - of_real (\<Gamma> (i, j)) * x (i, i))"
    by (simp add: Lindblad_decay_apply gain_def sum_list_upt_lessThan)
next
  assume h: "i < N \<and> j < N \<and> i \<noteq> j"
  have "damp N \<Gamma> x i j = (\<Sum>k<N. of_real (1 / 2 * (\<Gamma> (i, k) + \<Gamma> (j, k))) * x (i, j))"
    by (simp add: damp_def sum_list_upt_lessThan)
  also have "\<dots> = 1 / 2 * (\<Sum>k<N. of_real (\<Gamma> (i, k) + \<Gamma> (j, k))) * x (i, j)"
    by (simp add: sum_distrib_left sum_distrib_right algebra_simps)
  finally show "Lindblad_decay N \<Gamma> x (i, j) =
        - (1 / 2 * (\<Sum>k<N. of_real (\<Gamma> (i, k) + \<Gamma> (j, k))) * x (i, j))"
    using h by (simp add: Lindblad_decay_apply)
  from h show "Lindblad_dephase N \<Gamma> x (i, j) = - (1 / 2 * of_real (\<Gamma> (i, j)) * x (i, j))"
    by (simp add: Lindblad_dephase_apply)
next
  show "Lindblad_dephase N \<Gamma> x (i, i) = 0"
    by (simp add: Lindblad_dephase_apply)
qed

theorem Lindblad_operators_entries_witness:
  "Lindblad_decay 2 (\<lambda>(a, b). if a = 1 \<and> b = 0 then 6 else if a = 0 \<and> b = 1 then 2 else 0)
      (\<lambda>(a, b). if a = b then 1 / 2 else \<i>) (0, 0) = 2 \<and>
   Lindblad_decay 2 (\<lambda>(a, b). if a = 1 \<and> b = 0 then 6 else if a = 0 \<and> b = 1 then 2 else 0)
      (\<lambda>(a, b). if a = b then 1 / 2 else \<i>) (0, 1) = - (4 * \<i>) \<and>
   Lindblad_dephase 2 (\<lambda>(a, b). if a = 1 \<and> b = 0 then 6 else if a = 0 \<and> b = 1 then 2 else 0)
      (\<lambda>(a, b). if a = b then 1 / 2 else \<i>) (0, 1) = - \<i> \<and>
   Lindblad_dephase 2 (\<lambda>(a, b). if a = 1 \<and> b = 0 then 6 else if a = 0 \<and> b = 1 then 2 else 0)
      (\<lambda>(a, b). if a = b then 1 / 2 else \<i>) (0, 0) = 0"
  using Lindblad_operators_entries
    [of 0 2 "\<lambda>(a, b). if a = 1 \<and> b = 0 then 6 else if a = 0 \<and> b = 1 then 2 else 0"
        "\<lambda>(a, b). if a = b then 1 / 2 else \<i>" 1]
  by (simp add: lessThan_Suc eval_nat_numeral)

section \<open>The atomic system and the master equation\<close>

text \<open>
  The attributes of an \<open>atomicSystem\<close> that \<open>generateMatrices\<close> and the later methods
  read, as \<open>initSystemProperties\<close> leaves them.  That method computes them from the atomic
  database and from the reference calculator, which are not part of the repository, so the
  model takes them as given: the numbers of ground and excited sublevels \<open>self.n\<close>, the
  arrays \<open>Gammas\<close> and \<open>dme\<close> (ground sublevel first, excited sublevel second), the two
  lists of \<open>energySeparation\<close>, the transit time, and the abundance, an attribute that
  exists only where \<open>__init__\<close> or the caller has set it; and, for the Doppler average,
  the resonance frequency, the mass of the atom and the Doppler temperature.
\<close>

record atomicSystem =
  as_n0 :: nat
  as_n1 :: nat
  as_Gammas :: "real matrix"
  as_dme :: "real matrix"
  as_energySeparation0 :: "real list"
  as_energySeparation1 :: "real list"
  as_transit_time :: real
  as_abundance :: "real option"
  as_p_dict :: p_dict
  as_f_resonance :: real
  as_mass :: real
  as_DoppT :: real

text \<open>
  \<open>self.slices\<close> for the two manifolds: the ground sublevels have the indices
  \<open>[0, n0)\<close> and the excited sublevels the indices \<open>[n0, n0 + n1)\<close>.  A slice is the
  pair of its bounds; \<open>assign_block rs cs v m\<close> is the array after
  \<open>m[rs, cs] = v\<close>, where \<open>v\<close> is indexed from the corner of the block.
\<close>

definition total_levels :: "atomicSystem \<Rightarrow> nat" where
  "total_levels s = as_n0 s + as_n1 s"

definition slice0 :: "atomicSystem \<Rightarrow> nat \<times> nat" where
  "slice0 s = (0, as_n0 s)"

definition slice1 :: "atomicSystem \<Rightarrow> nat \<times> nat" where
  "slice1 s = (as_n0 s, as_n0 s + as_n1 s)"

definition in_slice :: "nat \<times> nat \<Rightarrow> nat \<Rightarrow> bool" where
  "in_slice sl i = (fst sl \<le> i \<and> i < snd sl)"

definition assign_block :: "nat \<times> nat \<Rightarrow> nat \<times> nat \<Rightarrow> 'a matrix \<Rightarrow> 'a matrix \<Rightarrow> 'a matrix" where
  "assign_block rs cs v m =
     (\<lambda>(i, j). if in_slice rs i \<and> in_slice cs j then v (i - fst rs, j - fst cs) else m (i, j))"

definition zeros :: "'a::zero matrix" where
  "zeros = (\<lambda>p. 0)"

definition madd :: "'a::plus matrix \<Rightarrow> 'a matrix \<Rightarrow> 'a matrix" where
  "madd m1 m2 = (\<lambda>p. m1 p + m2 p)"

text \<open>
  The rate matrices of \<open>generateMatrices\<close>.  The numeric transit matrix holds
  \<open>1 / transit_time / n[0] / 2\<close>; with \<open>symbolic_transit\<close> in the dictionary it is
  rebuilt from the symbol \<open>tau_t\<close>, here the value that is later substituted for it.
  These are the matrices for a transit time that is not zero: \<open>generateMatrices\<close>
  raises before it uses them otherwise.
\<close>

definition g_dec :: "atomicSystem \<Rightarrow> real matrix" where
  "g_dec s = assign_block (slice1 s) (slice0 s) (\<lambda>(a, b). as_Gammas s (b, a)) zeros"

definition g_transit_numeric :: "atomicSystem \<Rightarrow> real matrix" where
  "g_transit_numeric s =
     assign_block (slice1 s) (slice0 s) (\<lambda>p. 1 / as_transit_time s / real (as_n0 s) / 2)
       (assign_block (slice0 s) (slice0 s) (\<lambda>p. 1 / as_transit_time s / real (as_n0 s) / 2)
          zeros)"

definition g_transit_symbolic :: "atomicSystem \<Rightarrow> real \<Rightarrow> real matrix" where
  "g_transit_symbolic s tau_t =
     assign_block (slice1 s) (slice0 s) (\<lambda>p. 1 / tau_t / real (as_n0 s) / 2 * 1)
       (assign_block (slice0 s) (slice0 s) (\<lambda>p. 1 / tau_t / real (as_n0 s) / 2 * 1)
          zeros)"

definition g_transit :: "atomicSystem \<Rightarrow> real \<Rightarrow> real matrix" where
  "g_transit s tau_t =
     (if pd_symbolic_transit (as_p_dict s) then g_transit_symbolic s tau_t
      else g_transit_numeric s)"

text \<open>
  The Hamiltonian: the coupling block \<open>0.5e-6 / h * dme * Efield\<close> between the ground and
  the excited sublevels plus its transpose, and the diagonal matrix of the detunings.
  \<open>wL\<close> and \<open>Efield\<close> are the values given to the symbols of the same names.
\<close>

definition H_rabi :: "phys \<Rightarrow> atomicSystem \<Rightarrow> real \<Rightarrow> real matrix" where
  "H_rabi ph s Efield =
     (let B = assign_block (slice0 s) (slice1 s)
                (\<lambda>p. 5 / 10 ^ 7 / c_h ph * as_dme s p * Efield) zeros
      in (\<lambda>(i, j). B (i, j) + B (j, i)))"

definition detunings :: "atomicSystem \<Rightarrow> real \<Rightarrow> real list" where
  "detunings s wL =
     map (\<lambda>e. - e) (as_energySeparation0 s) @ map (\<lambda>e. wL - e) (as_energySeparation1 s)"

definition H_energylevels :: "atomicSystem \<Rightarrow> real \<Rightarrow> real matrix" where
  "H_energylevels s wL =
     (\<lambda>(i, j). if i = j \<and> i < length (detunings s wL) then detunings s wL ! i else 0)"

definition Hamiltonian_H :: "phys \<Rightarrow> atomicSystem \<Rightarrow> real \<Rightarrow> real \<Rightarrow> real matrix" where
  "Hamiltonian_H ph s wL Efield = madd (H_rabi ph s Efield) (H_energylevels s wL)"

definition commutator :: "nat \<Rightarrow> real matrix \<Rightarrow> rho \<Rightarrow> complex matrix" where
  "commutator N H r =
     (\<lambda>(a, b). (\<Sum>k\<leftarrow>[0..<N]. of_real (H (a, k)) * r (k, b)) -
               (\<Sum>k\<leftarrow>[0..<N]. r (a, k) * of_real (H (k, b))))"

text \<open>
  \<open>generateMatrices\<close>.  The master equation is a function of the values of \<open>wL\<close>,
  \<open>Efield\<close> and \<open>tau_t\<close> and of the valuation of the density-matrix symbols.  Adding
  the two parts of the Hamiltonian fails with a shape error unless the detunings are as
  many as the levels.  The numeric transit matrix is built in every case, before the
  collision model is looked at, and \<open>1 / self.transit_time\<close> raises
  \<open>ZeroDivisionError\<close> for a transit time of zero.  A \<open>collisions\<close> entry other than
  \<open>decay\<close> and \<open>dephase\<close> takes neither branch and leaves \<open>self.master_equation\<close>
  unset (\<open>None\<close> here).
\<close>

type_synonym master = "real \<Rightarrow> real \<Rightarrow> real \<Rightarrow> rho \<Rightarrow> complex matrix"

definition generateMatrices ::
  "phys \<Rightarrow> atomicSystem \<Rightarrow> log_record list \<times> (py_error + p_dict \<times> master option)" where
  "generateMatrices ph s =
     (if length (as_energySeparation0 s) + length (as_energySeparation1 s) \<noteq> total_levels s
      then ([], Inl ShapeError)
      else if as_transit_time s = 0 then ([], Inl ZeroDivisionError)
      else
        (let N = total_levels s;
             pd = as_p_dict s;
             (lg1, pd1) =
               (case pd_collisions pd of
                  None \<Rightarrow> ([(Warning, ''Implicitly assume decaying collisions'')],
                            pd\<lparr>pd_collisions := Some ''decay''\<rparr>)
                | Some c \<Rightarrow> ([], pd))
         in if pd_collisions pd1 = Some ''decay'' then
              (let g_col = assign_block (slice1 s) (slice0 s)
                             (\<lambda>p. pd_GammaBuf pd1 / real (as_n0 s)) zeros
               in (lg1 @ [(Info, ''decaying collisions!'')],
                   Inr (pd1, Some (\<lambda>wL Efield tau_t r (a, b).
                     - \<i> * commutator N (Hamiltonian_H ph s wL Efield) r (a, b)
                     - Lindblad_decay N (madd (madd (g_dec s) (g_transit s tau_t)) g_col) r (a, b)))))
            else if pd_collisions pd1 = Some ''dephase'' then
              (let g_col = assign_block (slice0 s) (slice1 s) (\<lambda>p. pd_GammaBuf pd1)
                             (assign_block (slice1 s) (slice0 s) (\<lambda>p. pd_GammaBuf pd1) zeros)
               in (lg1 @ [(Info, ''dephasing collisions!'')],
                   Inr (pd1, Some (\<lambda>wL Efield tau_t r (a, b).
                     - \<i> * commutator N (Hamiltonian_H ph s wL Efield) r (a, b)
                     - Lindblad_decay N (madd (g_dec s) (g_transit s tau_t)) r (a, b)
                     - Lindblad_dephase N g_col r (a, b)))))
            else (lg1, Inr (pd1, None))))"

subsection \<open>The transit-time rate matrix\<close>





section \<open>The linear system\<close>

text \<open>
  \<open>system_matrix\<close>: the master equation with \<open>tau_t\<close> replaced by the transit time,
  and with its first entry overwritten by \<open>-1 + trace(r)\<close>.
\<close>

definition system_matrix :: "atomicSystem \<Rightarrow> master \<Rightarrow> real \<Rightarrow> real \<Rightarrow> rho \<Rightarrow> complex matrix" where
  "system_matrix s me wL Efield r =
     (me wL Efield (as_transit_time s) r)
       ((0, 0) := - 1 + (\<Sum>i\<leftarrow>[0..<total_levels s]. r (i, i)))"

text \<open>
  \<open>matrix2list\<close>: the diagonal, then the entries above it row by row, then their
  mirror images, collected by the two nested loops.
\<close>

definition matrix2list :: "nat \<Rightarrow> 'a matrix \<Rightarrow> 'a list" where
  "matrix2list N mat =
     (let (l1, l2) =
            fold (\<lambda>i. fold (\<lambda>j (l1, l2). (l1 @ [mat (i, j)], l2 @ [mat (j, i)])) [i + 1..<N])
              [0..<N] ([], [])
      in map (\<lambda>i. mat (i, i)) [0..<N] @ l1 @ l2)"

text \<open>
  \<open>sympy.linear_eq_to_matrix\<close> returns the coefficient of each symbol in each equation
  and the negated constant terms.  Every entry of the system matrix is a polynomial of
  degree one in the symbols \<open>rho_ij\<close>; for such an expression the coefficient of a symbol
  is its value where that symbol is 1 and the others are 0, minus its value where all
  symbols are 0.  The equations are the entries of the matrix in row-major order, the
  symbols are \<open>r_list\<close>, the symbol \<open>rho_ij\<close> being the pair \<open>(i, j)\<close>.
\<close>

definition unit_rho :: "nat \<times> nat \<Rightarrow> rho" where
  "unit_rho p = (\<lambda>q. if q = p then 1 else 0)"

definition coeff :: "(rho \<Rightarrow> complex) \<Rightarrow> nat \<times> nat \<Rightarrow> complex" where
  "coeff f p = f (unit_rho p) - f (\<lambda>q. 0)"

definition linear_eq_to_matrix ::
  "nat \<Rightarrow> (rho \<Rightarrow> complex matrix) \<Rightarrow> (nat \<times> nat) list \<Rightarrow> complex list list \<times> complex list" where
  "linear_eq_to_matrix N eqs syms =
     (map (\<lambda>e. map (coeff (\<lambda>r. eqs r (e div N, e mod N))) syms) [0..<N * N],
      map (\<lambda>e. - eqs (\<lambda>q. 0) (e div N, e mod N)) [0..<N * N])"

text \<open>
  \<open>generate_linear_system\<close> keeps the matrix of \<open>linear_eq_to_matrix\<close> as a function
  of the detuning and the field amplitude, drops its right-hand side and returns instead
  the vector of zeros with first entry 1; \<open>b[0] = 1\<close> raises for an empty vector.
\<close>

record linear_system =
  sys_A :: "real \<Rightarrow> real \<Rightarrow> complex list list"
  sys_b :: "complex list"
  sys_r_list :: "(nat \<times> nat) list"
  sys_transition_list :: "bool list"
  sys_transition_list2 :: "bool list"

definition generate_linear_system :: "atomicSystem \<Rightarrow> master \<Rightarrow> py_error + linear_system" where
  "generate_linear_system s me =
     (let N = total_levels s;
          r_list = matrix2list N (\<lambda>p. p);
          transition_list =
            matrix2list N (assign_block (slice0 s) (slice1 s) (\<lambda>p. True) (\<lambda>p. False));
          transition_list2 =
            matrix2list N (assign_block (slice1 s) (slice0 s) (\<lambda>p. True) (\<lambda>p. False));
          A = (\<lambda>wL Efield. fst (linear_eq_to_matrix N (system_matrix s me wL Efield) r_list));
          b = replicate (N * N) 0
      in if N * N = 0 then Inl IndexError
         else Inr \<lparr>sys_A = A, sys_b = b[0 := 1], sys_r_list = r_list,
                   sys_transition_list = transition_list,
                   sys_transition_list2 = transition_list2\<rparr>)"

text \<open>
  The last part of \<open>atomicSystem.__init__\<close>: \<open>generateMatrices\<close>, the system matrix
  (reading an unset \<open>master_equation\<close> raises \<open>AttributeError\<close>, overwriting the first
  entry of an empty matrix raises \<open>IndexError\<close>), and \<open>generate_linear_system\<close>.
\<close>

definition init_system :: "phys \<Rightarrow> atomicSystem \<Rightarrow> log_record list \<times> (py_error + linear_system)" where
  "init_system ph s =
     (let (lg, res) = generateMatrices ph s
      in case res of
           Inl e \<Rightarrow> (lg, Inl e)
         | Inr (pd, None) \<Rightarrow> (lg, Inl AttributeError)
         | Inr (pd, Some me) \<Rightarrow>
             (let lg1 = (if pd_symbolic_transit pd
                         then lg @ [(Warning, ''USING symbolic transit time'')] else lg)
              in if total_levels s = 0 then (lg1, Inl IndexError)
                 else (lg1 @ [(Debug, ''Generate linear system'')],
                       generate_linear_system (s\<lparr>as_p_dict := pd\<rparr>) me)))"

text \<open>
  \<open>x\<close> solves \<open>A x = b\<close>: what \<open>np.linalg.solve\<close> returns for a non-singular
  \<open>A\<close>.
\<close>

definition mat_vec :: "complex list list \<Rightarrow> complex list \<Rightarrow> complex list" where
  "mat_vec A x = map (\<lambda>row. sum_list (map2 (*) row x)) A"

definition is_solution :: "complex list list \<Rightarrow> complex list \<Rightarrow> complex list \<Rightarrow> bool" where
  "is_solution A b x = (length x = length b \<and> mat_vec A x = b)"

subsection \<open>The order of the coordinates and the first row\<close>

lemma fold_append_pairs:
  "fold (\<lambda>j (l1, l2). (l1 @ [f j], l2 @ [g j])) js (l1, l2) = (l1 @ map f js, l2 @ map g js)"
  by (induction js arbitrary: l1 l2) simp_all

lemma fold_append_rows:
  "fold (\<lambda>i. fold (\<lambda>j (l1, l2). (l1 @ [f i j], l2 @ [g i j])) (js i)) rows (l1, l2) =
     (l1 @ concat (map (\<lambda>i. map (f i) (js i)) rows),
      l2 @ concat (map (\<lambda>i. map (g i) (js i)) rows))"
  by (induction rows arbitrary: l1 l2) (simp_all add: fold_append_pairs)

lemma matrix2list_closed:
  "matrix2list N mat =
     map (\<lambda>i. mat (i, i)) [0..<N] @
     concat (map (\<lambda>i. map (\<lambda>j. mat (i, j)) [i + 1..<N]) [0..<N]) @
     concat (map (\<lambda>i. map (\<lambda>j. mat (j, i)) [i + 1..<N]) [0..<N])"
  using fold_append_rows [of "\<lambda>i j. mat (i, j)" "\<lambda>i j. mat (j, i)" "\<lambda>i. [i + 1..<N]" "[0..<N]" "[]" "[]"]
  by (simp add: matrix2list_def)

lemma coeff_trace:
  "coeff (\<lambda>r. - 1 + (\<Sum>i\<leftarrow>[0..<N]. r (i, i))) (a, b) = (if a = b \<and> a < N then 1 else 0)"
proof -
  have "(\<Sum>i\<leftarrow>[0..<N]. unit_rho (a, b) (i, i)) = (\<Sum>i<N. if i = a \<and> a = b then 1 else 0)"
    by (simp add: sum_list_upt_lessThan unit_rho_def) (rule sum.cong, auto)
  also have "\<dots> = (if a = b \<and> a < N then 1 else 0)"
    by (cases "a = b") simp_all
  finally show ?thesis by (simp add: coeff_def)
qed

lemma map_const_replicate:
  "(\<And>x. x \<in> set xs \<Longrightarrow> f x = c) \<Longrightarrow> map f xs = replicate (length xs) c"
  by (induction xs) simp_all

lemma map_coeff_trace_r_list:
  "map (coeff (\<lambda>r. - 1 + (\<Sum>i\<leftarrow>[0..<N]. r (i, i)))) (matrix2list N (\<lambda>p. p)) =
     replicate N 1 @ replicate (length (matrix2list N (\<lambda>p. p)) - N) 0"
proof -
  define c where "c = coeff (\<lambda>r. - 1 + (\<Sum>i\<leftarrow>[0..<N]. r (i, i)))"
  define u where "u = concat (map (\<lambda>i. map (\<lambda>j. (i, j)) [i + 1..<N]) [0..<N]) @
     concat (map (\<lambda>i. map (\<lambda>j. (j, i)) [i + 1..<N]) [0..<N])"
  have cv: "c (a, b) = (if a = b \<and> a < N then 1 else 0)" for a b
    unfolding c_def by (rule coeff_trace)
  have "map c (map (\<lambda>i. (i, i)) [0..<N]) = replicate (length (map (\<lambda>i. (i, i)) [0..<N])) 1"
    by (rule map_const_replicate) (auto simp: cv)
  then have d: "map c (map (\<lambda>i. (i, i)) [0..<N]) = replicate N 1"
    by simp
  have o: "map c u = replicate (length u) 0"
    by (rule map_const_replicate) (auto simp: cv u_def)
  have m: "matrix2list N (\<lambda>p. p) = map (\<lambda>i. (i, i)) [0..<N] @ u"
    by (simp add: matrix2list_closed u_def)
  have "map c (matrix2list N (\<lambda>p. p)) = replicate N 1 @ replicate (length u) 0"
    unfolding m map_append d o ..
  moreover have "length (matrix2list N (\<lambda>p. p)) - N = length u"
    unfolding m by simp
  ultimately show ?thesis
    unfolding c_def by simp
qed

lemma sum_list_ones_zeros:
  "sum_list (map2 (*) (replicate n 1 @ replicate m 0) x) = sum_list (take n x)"
  for x :: "'a::semiring_1 list"
proof (induction n arbitrary: x)
  case 0
  have "sum_list (map2 (*) (replicate m 0) x) = 0" for x :: "'a list"
    by (induction m arbitrary: x) (simp, case_tac x, simp_all)
  then show ?case by simp
next
  case (Suc n)
  then show ?case by (cases x) simp_all
qed


lemma generate_linear_system_population:
  assumes g: "generate_linear_system s me = Inr sys"
    and x: "is_solution (sys_A sys wL Efield) (sys_b sys) x"
  shows "sum_list (take (total_levels s) x) = 1"
proof -
  define N where "N = total_levels s"
  define f0 :: "rho \<Rightarrow> complex" where "f0 = (\<lambda>r. - 1 + (\<Sum>i\<leftarrow>[0..<N]. r (i, i)))"
  from g have N: "0 < N * N"
    by (auto simp: generate_linear_system_def Let_def N_def split: if_splits)
  then have N0: "0 < N" by simp
  from g N have A: "sys_A sys wL Efield =
      map (\<lambda>e. map (coeff (\<lambda>r. system_matrix s me wL Efield r (e div N, e mod N)))
                  (matrix2list N (\<lambda>p. p))) [0..<N * N]"
    and b: "sys_b sys = (replicate (N * N) 0)[0 := 1]"
    by (auto simp: generate_linear_system_def Let_def N_def linear_eq_to_matrix_def
        split: if_splits)
  have row0: "sys_A sys wL Efield ! 0 = map (coeff f0) (matrix2list N (\<lambda>p. p))"
    using N N0 by (simp add: A system_matrix_def f0_def N_def)
  from x have "mat_vec (sys_A sys wL Efield) x ! 0 = sys_b sys ! 0"
    by (simp add: is_solution_def)
  moreover have "mat_vec (sys_A sys wL Efield) x ! 0 = sum_list (map2 (*) (sys_A sys wL Efield ! 0) x)"
    using N by (simp add: mat_vec_def A)
  moreover have "sys_b sys ! 0 = 1"
    using N by (simp add: b)
  ultimately have "sum_list (map2 (*) (map (coeff f0) (matrix2list N (\<lambda>p. p))) x) = 1"
    by (simp add: row0)
  then show ?thesis
    unfolding f0_def map_coeff_trace_r_list sum_list_ones_zeros N_def .
qed

lemma init_system_Inr:
  assumes "snd (init_system ph s) = Inr sys"
  shows "\<exists>pd me. generate_linear_system (s\<lparr>as_p_dict := pd\<rparr>) me = Inr sys"
  using assms
  by (auto simp: init_system_def Let_def split: prod.splits sum.splits option.splits if_splits)

text \<open>
  Claim C1.  Whenever the construction of the system succeeds, every solution \<open>x\<close> of
  \<open>A(wL, Efield) x = b\<close>, so in particular the solution at a pair where the matrix is
  non-singular, has its first \<open>N\<close> coordinates, the populations, summing to 1: the first
  row of \<open>A\<close> holds the coefficients of \<open>-1 + trace(r)\<close>, and \<open>b\<close> is 1 followed by
  zeros.
\<close>

theorem population_sum_one:
  assumes "snd (init_system ph s) = Inr sys"
    and "is_solution (sys_A sys wL Efield) (sys_b sys) x"
  shows "sum_list (take (total_levels s) x) = 1"
proof -
  from assms(1) obtain pd me where "generate_linear_system (s\<lparr>as_p_dict := pd\<rparr>) me = Inr sys"
    using init_system_Inr by blast
  from generate_linear_system_population [OF this assms(2)]
  show ?thesis by (simp add: total_levels_def)
qed

section \<open>The two collision models without buffer gas\<close>

text \<open>
  The master equation that \<open>generateMatrices\<close> stores, and the system with the
  \<open>collisions\<close> entry of its dictionary set.
\<close>

definition master_equation_of :: "phys \<Rightarrow> atomicSystem \<Rightarrow> master option" where
  "master_equation_of ph s =
     (case snd (generateMatrices ph s) of Inr (pd, Some me) \<Rightarrow> Some me | _ \<Rightarrow> None)"

definition with_collisions :: "string \<Rightarrow> atomicSystem \<Rightarrow> atomicSystem" where
  "with_collisions c s = s\<lparr>as_p_dict := (as_p_dict s)\<lparr>pd_collisions := Some c\<rparr>\<rparr>"

lemma Lindblad_dephase_zero: "Lindblad_dephase N (\<lambda>p. 0) r (a, b) = 0"
  by (simp add: Lindblad_dephase_apply)

lemma g_col_zero:
  "assign_block rs cs (\<lambda>p. 0) (assign_block rs' cs' (\<lambda>p. 0) zeros) = (\<lambda>p. 0)"
  "assign_block rs cs (\<lambda>p. 0) zeros = (\<lambda>p. 0)"
  "assign_block rs cs (\<lambda>p. 0) (\<lambda>p. 0) = (\<lambda>p. 0)"
  by (auto simp: assign_block_def zeros_def)

lemma madd_zero: "madd m (\<lambda>p. 0) = m"
  for m :: "real matrix"
  by (simp add: madd_def)

lemma with_collisions_simps:
  "total_levels (with_collisions c s) = total_levels s"
  "slice0 (with_collisions c s) = slice0 s"
  "slice1 (with_collisions c s) = slice1 s"
  "g_dec (with_collisions c s) = g_dec s"
  "g_transit (with_collisions c s) tau = g_transit s tau"
  "as_energySeparation0 (with_collisions c s) = as_energySeparation0 s"
  "as_energySeparation1 (with_collisions c s) = as_energySeparation1 s"
  "as_n0 (with_collisions c s) = as_n0 s"
  "as_transit_time (with_collisions c s) = as_transit_time s"
  "pd_collisions (as_p_dict (with_collisions c s)) = Some c"
  "pd_GammaBuf (as_p_dict (with_collisions c s)) = pd_GammaBuf (as_p_dict s)"
  "pd_symbolic_transit (as_p_dict (with_collisions c s)) = pd_symbolic_transit (as_p_dict s)"
  by (simp_all add: with_collisions_def total_levels_def slice0_def slice1_def g_dec_def
      g_transit_def g_transit_numeric_def g_transit_symbolic_def Hamiltonian_H_def H_rabi_def
      H_energylevels_def detunings_def)

lemma with_collisions_detunings:
  "detunings (with_collisions c s) wL = detunings s wL"
  by (simp add: with_collisions_def detunings_def)

lemma with_collisions_H:
  "Hamiltonian_H ph (with_collisions c s) = Hamiltonian_H ph s"
proof -
  have "H_rabi ph (with_collisions c s) = H_rabi ph s"
    by (intro ext) (simp add: with_collisions_def H_rabi_def slice0_def slice1_def Let_def)
  moreover have "H_energylevels (with_collisions c s) = H_energylevels s"
    unfolding H_energylevels_def with_collisions_detunings ..
  ultimately show ?thesis
    by (intro ext) (simp add: Hamiltonian_H_def)
qed

lemma master_equation_decay_dephase:
  assumes "pd_GammaBuf (as_p_dict s) = 0"
  shows "master_equation_of ph (with_collisions ''decay'' s) =
         master_equation_of ph (with_collisions ''dephase'' s)"
  using assms
  by (simp add: master_equation_of_def generateMatrices_def Let_def with_collisions_simps
      with_collisions_H g_col_zero madd_zero Lindblad_dephase_zero)

lemma master_equation_of_defined:
  assumes "length (as_energySeparation0 s) + length (as_energySeparation1 s) = total_levels s"
    and "as_transit_time s \<noteq> 0"
  shows "master_equation_of ph (with_collisions ''decay'' s) \<noteq> None"
  using assms
  by (simp add: master_equation_of_def generateMatrices_def Let_def with_collisions_simps)


lemma generate_linear_system_p_dict:
  "generate_linear_system (s\<lparr>as_p_dict := pd\<rparr>) me = generate_linear_system s me"
proof -
  have "system_matrix (s\<lparr>as_p_dict := pd\<rparr>) me = system_matrix s me"
    by (intro ext) (simp add: system_matrix_def total_levels_def)
  then show ?thesis
    by (simp add: generate_linear_system_def total_levels_def slice0_def slice1_def)
qed

lemma generate_linear_system_with_collisions:
  "generate_linear_system (with_collisions c s) me = generate_linear_system s me"
  by (simp add: with_collisions_def generate_linear_system_p_dict)

lemma init_system_decay_dephase:
  assumes "pd_GammaBuf (as_p_dict s) = 0"
  shows "snd (init_system ph (with_collisions ''decay'' s)) =
         snd (init_system ph (with_collisions ''dephase'' s))"
  using assms
  by (simp add: init_system_def generateMatrices_def Let_def with_collisions_simps
      with_collisions_H g_col_zero madd_zero Lindblad_dephase_zero
      generate_linear_system_p_dict generate_linear_system_with_collisions)

text \<open>
  A system with one ground and one excited sublevel, for evaluating the model at a
  concrete input.
\<close>

definition two_level :: atomicSystem where
  "two_level =
     \<lparr>as_n0 = 1, as_n1 = 1, as_Gammas = (\<lambda>p. 6), as_dme = (\<lambda>p. 1),
      as_energySeparation0 = [0], as_energySeparation1 = [0], as_transit_time = 2,
      as_abundance = Some 1,
      as_p_dict = \<lparr>pd_Dline = Some ''D1'', pd_K40frac = 1 / 100, pd_K41frac = 673 / 100,
        pd_rb85frac = 7217 / 100, pd_GammaBuf = 0, pd_collisions = None,
        pd_symbolic_transit = False, pd_Gammat = None\<rparr>,
      as_f_resonance = 299792458000000, as_mass = 1, as_DoppT = 1\<rparr>"

text \<open>
  Claim C6.  When \<open>GammaBuf\<close> is 0, the \<open>decay\<close> and the \<open>dephase\<close> collision models
  give the same master equation, and the same result of the construction: the same
  compiled matrix \<open>A\<close>, vector \<open>b\<close> and coordinate lists, or the same error.  The outputs
  of \<open>solve\<close> are computed from these alone.
\<close>

theorem decay_dephase_equal_without_buffer_gas:
  assumes "pd_GammaBuf (as_p_dict s) = 0"
  shows "master_equation_of ph (with_collisions ''decay'' s) =
           master_equation_of ph (with_collisions ''dephase'' s) \<and>
         snd (init_system ph (with_collisions ''decay'' s)) =
           snd (init_system ph (with_collisions ''dephase'' s))"
  using assms master_equation_decay_dephase init_system_decay_dephase by blast

theorem decay_dephase_equal_without_buffer_gas_witness:
  "master_equation_of scipy_constants (with_collisions ''decay'' two_level) =
     master_equation_of scipy_constants (with_collisions ''dephase'' two_level) \<and>
   snd (init_system scipy_constants (with_collisions ''decay'' two_level)) =
     snd (init_system scipy_constants (with_collisions ''dephase'' two_level)) \<and>
   master_equation_of scipy_constants (with_collisions ''decay'' two_level) \<noteq> None"
proof -
  have g: "pd_GammaBuf (as_p_dict two_level) = 0"
    by (simp add: two_level_def)
  have d: "master_equation_of scipy_constants (with_collisions ''decay'' two_level) \<noteq> None"
    by (rule master_equation_of_defined) (simp_all add: two_level_def total_levels_def)
  from decay_dephase_equal_without_buffer_gas [OF g, of scipy_constants] d
  show ?thesis by blast
qed

subsection \<open>The two-level system at zero field\<close>


lemma upt_small:
  "[0..<2] = [0, 1]" "[1..<2] = [1]" "[2..<2] = []" "[0..<4] = [0, 1, 2, 3]"
  by code_simp+

lemma two_level_r_list: "matrix2list 2 (\<lambda>p. p) = [(0, 0), (1, 1), (0, 1), (1, 0)]"
  by code_simp

lemma replicate_small: "(replicate 4 (0 :: complex))[0 := 1] = [1, 0, 0, 0]"
  by (simp add: eval_nat_numeral)

theorem population_sum_one_witness:
  "\<exists>sys. snd (init_system scipy_constants two_level) = Inr sys \<and>
         is_solution (sys_A sys 0 0) (sys_b sys) [1, 0, 0, 0] \<and>
         sum_list (take (total_levels two_level) [1, 0, 0, 0 :: complex]) = 1"
proof -
  define pd1 where "pd1 = (as_p_dict two_level)\<lparr>pd_collisions := Some ''decay''\<rparr>"
  define G where "G = (\<lambda>tau_t. madd (madd (g_dec two_level) (g_transit two_level tau_t))
     (assign_block (slice1 two_level) (slice0 two_level)
        (\<lambda>p. pd_GammaBuf pd1 / real (as_n0 two_level)) zeros))"
  define me :: master where "me = (\<lambda>wL Efield tau_t r (a, b).
     - \<i> * commutator 2 (Hamiltonian_H scipy_constants two_level wL Efield) r (a, b)
     - Lindblad_decay 2 (G tau_t) r (a, b))"
  define s1 where "s1 = two_level\<lparr>as_p_dict := pd1\<rparr>"
  define sys where "sys = \<lparr>sys_A = (\<lambda>wL Efield.
        fst (linear_eq_to_matrix 2 (system_matrix two_level me wL Efield) (matrix2list 2 (\<lambda>p. p)))),
      sys_b = [1, 0, 0, 0], sys_r_list = matrix2list 2 (\<lambda>p. p),
      sys_transition_list =
        matrix2list 2 (assign_block (slice0 two_level) (slice1 two_level) (\<lambda>p. True) (\<lambda>p. False)),
      sys_transition_list2 =
        matrix2list 2 (assign_block (slice1 two_level) (slice0 two_level) (\<lambda>p. True) (\<lambda>p. False))\<rparr>"
  have tl: "total_levels two_level = 2"
    by (simp add: total_levels_def two_level_def)
  have col: "pd_collisions (as_p_dict two_level) = None"
    "length (as_energySeparation0 two_level) + length (as_energySeparation1 two_level) = 2"
    "pd_symbolic_transit pd1 = False"
    by (simp_all add: two_level_def pd1_def)
  have tt: "as_transit_time two_level = 2"
    by (simp add: two_level_def)
  have gm: "snd (generateMatrices scipy_constants two_level) = Inr (pd1, Some me)"
    by (simp add: generateMatrices_def tl col tt Let_def pd1_def me_def G_def)
  have gls: "generate_linear_system two_level me = Inr sys"
    by (simp add: generate_linear_system_def tl Let_def sys_def replicate_small)
  obtain lg where gm': "generateMatrices scipy_constants two_level = (lg, Inr (pd1, Some me))"
    using gm by (cases "generateMatrices scipy_constants two_level") simp
  have h1: "snd (init_system scipy_constants two_level) = Inr sys"
    by (simp add: init_system_def Let_def gm' tl col generate_linear_system_p_dict gls)
  have Gv: "G 2 (a, Suc 0) = 0" for a
    by (simp add: G_def madd_def g_dec_def g_transit_def g_transit_numeric_def
        assign_block_def in_slice_def slice0_def slice1_def zeros_def two_level_def pd1_def)
  have Hv: "Hamiltonian_H scipy_constants two_level 0 0 (0, Suc 0) = 0"
    "Hamiltonian_H scipy_constants two_level 0 0 (Suc 0, 0) = 0"
    by (simp_all add: Hamiltonian_H_def madd_def H_rabi_def H_energylevels_def
        assign_block_def in_slice_def slice0_def slice1_def zeros_def Let_def)
  have tt: "as_transit_time two_level = 2"
    by (simp add: two_level_def)
  have c0: "coeff (\<lambda>r. system_matrix two_level me 0 0 r (0, 0)) (0, 0) = 1"
    using coeff_trace [of 2 0 0] by (simp add: system_matrix_def tl)
  have c1: "coeff (\<lambda>r. system_matrix two_level me 0 0 r (0, Suc 0)) (0, 0) = 0"
    by (simp add: system_matrix_def tt coeff_def me_def commutator_def Lindblad_decay_apply
        damp_def unit_rho_def upt_small Hv)
  have c2: "coeff (\<lambda>r. system_matrix two_level me 0 0 r (Suc 0, 0)) (0, 0) = 0"
    by (simp add: system_matrix_def tt coeff_def me_def commutator_def Lindblad_decay_apply
        damp_def unit_rho_def upt_small Hv)
  have c3: "coeff (\<lambda>r. system_matrix two_level me 0 0 r (Suc 0, Suc 0)) (0, 0) = 0"
    by (simp add: system_matrix_def tt coeff_def me_def commutator_def Lindblad_decay_apply
        gain_def unit_rho_def upt_small Hv Gv)
  have h2: "is_solution (sys_A sys 0 0) (sys_b sys) [1, 0, 0, 0]"
    by (simp add: is_solution_def mat_vec_def sys_def linear_eq_to_matrix_def two_level_r_list
        upt_small c0 c1 c2 c3)
  from population_sum_one [OF h1 h2] h1 h2 show ?thesis by blast
qed

section \<open>Propagation through the medium\<close>

text \<open>
  Unpacking an iterable into four, or three, names raises \<open>ValueError\<close> unless it yields
  exactly that many values.
\<close>

definition unpack4 :: "'a list \<Rightarrow> py_error + 'a \<times> 'a \<times> 'a \<times> 'a" where
  "unpack4 xs = (case xs of [a, b, c, d] \<Rightarrow> Inr (a, b, c, d) | _ \<Rightarrow> Inl ValueError)"


text \<open>
  The broadcast of a row against a row of \<open>n\<close> entries: a row of the same length, or a
  single value repeated.
\<close>

definition broadcast_to :: "nat \<Rightarrow> 'a list \<Rightarrow> py_error + 'a list" where
  "broadcast_to n xs =
     (if length xs = n then Inr xs
      else if length xs = 1 then Inr (replicate n (hd xs))
      else Inl ValueError)"

text \<open>
  The loop of \<open>propagated_transmission\<close> over the segments: the transmission of a beam
  with the smallest power of the previous row (\<open>min\<close> of an empty row raises), the new row
  of powers, and the row of transmissions appended to \<open>T\<close>.  \<open>transmission\<close> is the
  method of that name for the given system, Doppler flag and transit type; it depends on
  the atomic database and is a parameter.
\<close>

fun propagate_steps ::
  "phys \<Rightarrow> (beam \<Rightarrow> real \<Rightarrow> py_error + real list) \<Rightarrow> real list \<Rightarrow> real \<Rightarrow> string \<Rightarrow> real \<Rightarrow>
   nat \<Rightarrow> real list \<Rightarrow> real list list \<Rightarrow> py_error + real list list" where
  "propagate_steps ph transmission w D prof dz 0 Pprev T = Inr T"
| "propagate_steps ph transmission w D prof dz (Suc n) Pprev T =
     (if Pprev = [] then Inl ValueError
      else case snd (beam_init ph (no_kwargs\<lparr>kw_w := Some w, kw_P := Some (Arr [Min (set Pprev)]),
                  kw_D := Some D, kw_profile := Some prof\<rparr>)) of
             Inl e \<Rightarrow> Inl e
           | Inr b \<Rightarrow>
               (case transmission b dz of
                  Inl e \<Rightarrow> Inl e
                | Inr Ti0 \<Rightarrow>
                    (case broadcast_to (length w) Ti0 of
                       Inl e \<Rightarrow> Inl e
                     | Inr Ti \<Rightarrow>
                         propagate_steps ph transmission w D prof dz n
                           (map2 (*) Ti Pprev) (T @ [Ti]))))"

text \<open>
  \<open>propagated_transmission\<close>: the first statement unpacks \<open>beams[0]\<close> into the four
  names \<open>w, P0, D, _\<close>; then \<open>dz = z / steps\<close>, the rows \<open>P[0] = P0\<close> and
  \<open>T[0] = 1\<close>, the loop, and the product of the rows of \<open>T\<close>.  The model holds the
  diameter of a beam as a scalar.
\<close>

definition propagated_transmission ::
  "phys \<Rightarrow> (beam \<Rightarrow> real \<Rightarrow> py_error + real list) \<Rightarrow> beam list \<Rightarrow> real \<Rightarrow> nat \<Rightarrow>
   py_error + real list" where
  "propagated_transmission ph transmission beams z steps =
     (case beams of
        [] \<Rightarrow> Inl IndexError
      | b0 # bs \<Rightarrow>
          (case unpack4 (beam_iter b0) of
             Inl e \<Rightarrow> Inl e
           | Inr (wv, P0v, Dv, u) \<Rightarrow>
               (if steps = 0 then Inl ZeroDivisionError
                else
                  (let w = atleast_1d wv; dz = z / real steps
                   in case broadcast_to (length w) (atleast_1d P0v) of
                        Inl e \<Rightarrow> Inl e
                      | Inr P0 \<Rightarrow>
                          (case Dv of
                             Arr ds \<Rightarrow> Inl ValueError
                           | Num D \<Rightarrow>
                               (case propagate_steps ph transmission w D (b_profile b0) dz
                                       steps P0 [replicate (length w) 1] of
                                  Inl e \<Rightarrow> Inl e
                                | Inr T \<Rightarrow>
                                    Inr (map (\<lambda>j. prod_list (map (\<lambda>row. row ! j) T))
                                           [0..<length w])))))))"

text \<open>
  Claim C5.  \<open>beam.__iter__\<close> yields three values, so the unpacking into four names at
  the head of \<open>propagated_transmission\<close> raises \<open>ValueError\<close> for every beam, path
  length and step count: no segment is ever computed and no transmission is returned.
\<close>

theorem propagated_transmission_raises:
  "propagated_transmission ph transmission (b0 # bs) z steps = Inl ValueError"
  by (simp add: propagated_transmission_def unpack4_def beam_iter_def)

section \<open>The steady-state solver\<close>

text \<open>
  A list comprehension whose body can raise: the first exception ends it.
\<close>

fun mapM :: "('a \<Rightarrow> py_error + 'b) \<Rightarrow> 'a list \<Rightarrow> py_error + 'b list" where
  "mapM f [] = Inr []"
| "mapM f (x # xs) =
     (case f x of
        Inl e \<Rightarrow> Inl e
      | Inr y \<Rightarrow> (case mapM f xs of Inl e \<Rightarrow> Inl e | Inr ys \<Rightarrow> Inr (y # ys)))"

text \<open>
  The grid of solutions \<open>res\<close>: one call of \<open>np.linalg.solve(A(w, E), b)\<close> for every
  detuning \<open>w\<close> (outer list) and every amplitude \<open>E\<close> (inner list).  The solver is a
  parameter; it returns a vector as long as \<open>b\<close>, or raises.
\<close>

definition solve_grid ::
  "linear_system \<Rightarrow> (complex list list \<Rightarrow> complex list \<Rightarrow> py_error + complex list) \<Rightarrow>
   real list \<Rightarrow> real list \<Rightarrow> py_error + complex list list list" where
  "solve_grid sys linalg_solve w_ge E0 =
     mapM (\<lambda>w. mapM (\<lambda>E. linalg_solve (sys_A sys w E) (sys_b sys)) E0) w_ge"

text \<open>
  \<open>ravel\<close> of a two-dimensional array (row-major), and the indexing of the first axis
  of an array by a list of booleans.
\<close>

definition ravel :: "nat \<Rightarrow> nat \<Rightarrow> 'a matrix \<Rightarrow> 'a list" where
  "ravel rows cols m = concat (map (\<lambda>i. map (\<lambda>j. m (i, j)) [0..<cols]) [0..<rows])"

definition bool_index :: "bool list \<Rightarrow> 'a list \<Rightarrow> 'a list" where
  "bool_index sel xs = map fst (filter snd (zip xs sel))"

text \<open>
  \<open>solve\<close>, for a system with at least two levels.  \<open>beams\<close> is unpacked with
  \<open>zip(*beams)\<close>, which raises for an empty list.  The arrays are indexed here by
  the detuning first and the amplitude second, as before the final \<open>squeeze\<close>.

  The excited population is the real part of the sum of the coordinates in
  \<open>slices[1]\<close>, whatever the shape of the grid.

  For the susceptibility the source multiplies \<open>res[transition_list[0]]\<close> by
  \<open>k_alt[0]\<close>, an array of shape \<open>(n0 n1, nE)\<close> with the entries
  \<open>dme.ravel()[m] / E[e] / epsilon_0\<close>.  After \<open>squeeze\<close> and \<open>moveaxis\<close> the array
  \<open>res\<close> has the coordinate axis first and then only those of the axes of \<open>w\<close> and
  \<open>E\<close> that are longer than one (a second axis of length one is added when both have
  length one).  numpy aligns the shapes of a product from the right:
  \<^item> when \<open>nw = 1\<close> or \<open>nE = 1\<close>, the left factor has the shape \<open>(n0 n1, nE)\<close>,
    \<open>(n0 n1, nw)\<close> or \<open>(n0 n1, 1)\<close>, and the coordinate \<open>m\<close> meets the weight
    \<open>k_alt[m, e]\<close>; the same holds when \<open>n0 n1 = 1\<close>;
  \<^item> when both are longer than one, the left factor has the shape \<open>(n0 n1, nw, nE)\<close>
    and \<open>k_alt\<close> is aligned with its last two axes: if \<open>nw = n0 n1\<close> every
    coordinate at the detuning \<open>w\<close> meets the weight \<open>k_alt[w, e]\<close>, otherwise the
    shapes do not broadcast and numpy raises \<open>ValueError\<close>.
  Reading \<open>self.abundance\<close> comes first in that statement and raises
  \<open>AttributeError\<close> where the attribute was never set; indexing an empty grid with the
  list of booleans raises \<open>IndexError\<close>.
\<close>

definition solve ::
  "phys \<Rightarrow> atomicSystem \<Rightarrow> linear_system \<Rightarrow>
   (complex list list \<Rightarrow> complex list \<Rightarrow> py_error + complex list) \<Rightarrow> beam list \<Rightarrow>
   py_error + real list list \<times> complex list list" where
  "solve ph s sys linalg_solve beams =
     (case beams of
        [] \<Rightarrow> Inl ValueError
      | beam0 # bs \<Rightarrow>
          (let w_ge = b_w beam0; E0 = b_E beam0
           in case solve_grid sys linalg_solve w_ge E0 of
                Inl e \<Rightarrow> Inl e
              | Inr res \<Rightarrow>
                  (let k_alt = map (\<lambda>dm. map (\<lambda>E. dm / E / c_epsilon_0 ph) E0)
                                 (ravel (as_n0 s) (as_n1 s) (as_dme s));
                       state_population =
                         map (map (\<lambda>x. Re (sum_list (take (as_n1 s) (drop (as_n0 s) x))))) res
                   in case as_abundance s of
                        None \<Rightarrow> Inl AttributeError
                      | Some ab \<Rightarrow>
                          if w_ge = [] \<or> E0 = [] then Inl IndexError
                          else if length w_ge = 1 \<or> length E0 = 1 \<or> length k_alt = 1 then
                            Inr (state_population,
                                 map (map (\<lambda>(x, ei). of_real (ab * 2) *
                                        sum_list (map2 (\<lambda>xm krow. xm * of_real (krow ! ei))
                                          (bool_index (sys_transition_list sys) x) k_alt)))
                                   (map (\<lambda>row. zip row [0..<length E0]) res))
                          else if length w_ge = length k_alt then
                            Inr (state_population,
                                 map (\<lambda>(row, wi). map (\<lambda>(x, ei). of_real (ab * 2) *
                                        sum_list (map (\<lambda>xm. xm * of_real (k_alt ! wi ! ei))
                                          (bool_index (sys_transition_list sys) x)))
                                        (zip row [0..<length E0]))
                                   (zip res [0..<length w_ge]))
                          else Inl ValueError)))"

text \<open>
  The susceptibility as the specification words it, for a solution that is the coordinate
  vector of the density matrix \<open>\<rho>\<close>: \<open>2 abundance\<close> times the sum, over the ground
  sublevels \<open>g\<close> and the excited sublevels \<open>e\<close>, of the coherence \<open>\<rho>(g, n0 + e)\<close>
  times \<open>dme[g, e] / (E epsilon_0)\<close>.
\<close>

definition spec_chi :: "phys \<Rightarrow> atomicSystem \<Rightarrow> real \<Rightarrow> rho \<Rightarrow> real \<Rightarrow> complex" where
  "spec_chi ph s ab \<rho> E =
     of_real (2 * ab) *
     (\<Sum>g\<leftarrow>[0..<as_n0 s]. \<Sum>e\<leftarrow>[0..<as_n1 s].
        \<rho> (g, as_n0 s + e) * of_real (as_dme s (g, e) / (E * c_epsilon_0 ph)))"

subsection \<open>Grids with one detuning or one amplitude\<close>

lemma matrix2list_map: "matrix2list N mat = map mat (matrix2list N (\<lambda>p. p))"
  by (simp add: matrix2list_closed map_concat comp_def)

lemma bool_index_map: "bool_index (map m ys) (map f ys) = map f (filter m ys)"
  by (induction ys) (simp_all add: bool_index_def)

lemma filter_upt_from:
  assumes "i \<le> k" "k \<le> N"
  shows "filter (\<lambda>j. k \<le> j \<and> j < N) [i..<N] = [k..<N]"
proof -
  have "[i..<N] = [i..<k] @ [k..<N]"
    using assms by (metis le_Suc_ex upt_add_eq_append)
  then show ?thesis
    by (auto simp: filter_empty_conv intro: filter_True)
qed

text \<open>
  The symbols of the transition block, in the order of \<open>dme.ravel()\<close>: ground sublevel
  first, excited sublevel second.
\<close>

definition upper_block :: "nat \<Rightarrow> nat \<Rightarrow> (nat \<times> nat) list" where
  "upper_block n0 n1 = concat (map (\<lambda>g. map (\<lambda>e. (g, n0 + e)) [0..<n1]) [0..<n0])"

lemma upt_shift: "[n0..<n0 + n1] = map (\<lambda>e. n0 + e) [0..<n1]"
  by (induction n1) simp_all

lemma concat_map_filter_rows:
  "filter P (concat (map f xs)) = concat (map (\<lambda>x. filter P (f x)) xs)"
  by (induction xs) simp_all

lemma transition_symbols:
  "filter (\<lambda>(i, j). i < n0 \<and> n0 \<le> j \<and> j < n0 + n1) (matrix2list (n0 + n1) (\<lambda>p. p)) =
     upper_block n0 n1"
proof -
  let ?N = "n0 + n1"
  let ?m = "\<lambda>(i, j). i < n0 \<and> n0 \<le> j \<and> j < n0 + n1"
  have d: "filter ?m (map (\<lambda>i. (i, i)) [0..<?N]) = []"
    by (auto simp: filter_empty_conv)
  have l: "filter ?m (concat (map (\<lambda>i. map (\<lambda>j. (j, i)) [i + 1..<?N]) [0..<?N])) = []"
    by (auto simp: filter_empty_conv)
  have row: "filter ?m (map (\<lambda>j. (i, j)) [i + 1..<?N]) =
      (if i < n0 then map (\<lambda>e. (i, n0 + e)) [0..<n1] else [])" for i
  proof (cases "i < n0")
    case True
    have "filter ?m (map (\<lambda>j. (i, j)) [i + 1..<?N]) =
        map (\<lambda>j. (i, j)) (filter (\<lambda>j. n0 \<le> j \<and> j < ?N) [i + 1..<?N])"
      using True by (simp add: filter_map comp_def)
    also have "\<dots> = map (\<lambda>j. (i, j)) [n0..<?N]"
      using True by (simp add: filter_upt_from)
    also have "\<dots> = map (\<lambda>e. (i, n0 + e)) [0..<n1]"
      by (simp add: upt_shift comp_def del: upt_Suc)
    finally show ?thesis using True by simp
  next
    case False
    then show ?thesis by (auto simp: filter_empty_conv)
  qed
  have sp: "[0..<?N] = [0..<n0] @ [n0..<?N]"
    by (metis le_add1 upt_add_eq_append zero_le add_0)
  have lo: "map (\<lambda>i. filter ?m (map (\<lambda>j. (i, j)) [i + 1..<?N])) [0..<n0] =
      map (\<lambda>g. map (\<lambda>e. (g, n0 + e)) [0..<n1]) [0..<n0]"
    by (rule map_cong [OF refl]) (simp only: row, simp)
  have hi: "concat (map (\<lambda>i. filter ?m (map (\<lambda>j. (i, j)) [i + 1..<?N])) [n0..<?N]) = []"
    by (simp only: row) simp
  have "filter ?m (concat (map (\<lambda>i. map (\<lambda>j. (i, j)) [i + 1..<?N]) [0..<?N])) =
      concat (map (\<lambda>i. filter ?m (map (\<lambda>j. (i, j)) [i + 1..<?N])) [0..<?N])"
    by (rule concat_map_filter_rows)
  also have "\<dots> = concat (map (\<lambda>i. filter ?m (map (\<lambda>j. (i, j)) [i + 1..<?N])) [0..<n0]) @
      concat (map (\<lambda>i. filter ?m (map (\<lambda>j. (i, j)) [i + 1..<?N])) [n0..<?N])"
    by (subst sp) (simp only: map_append concat_append)
  also have "\<dots> = upper_block n0 n1"
    by (simp only: lo hi upper_block_def append_Nil2)
  finally have u: "filter ?m (concat (map (\<lambda>i. map (\<lambda>j. (i, j)) [i + 1..<?N]) [0..<?N])) =
      upper_block n0 n1" .
  show ?thesis
    by (simp only: matrix2list_closed filter_append d l u append_Nil append_Nil2)
qed

lemma map2_same: "map2 f (map a js) (map b js) = map (\<lambda>j. f (a j) (b j)) js"
  by (induction js) simp_all

lemma sum_list_map2_concat:
  "sum_list (map2 f (concat (map (\<lambda>g. map (a g) js) gs)) (concat (map (\<lambda>g. map (b g) js) gs))) =
     (\<Sum>g\<leftarrow>gs. \<Sum>j\<leftarrow>js. f (a g j) (b g j))"
  for f :: "'a \<Rightarrow> 'b \<Rightarrow> 'c::comm_monoid_add"
proof (induction gs)
  case Nil
  then show ?case by simp
next
  case (Cons g gs)
  have "map2 f (map (a g) js @ concat (map (\<lambda>g. map (a g) js) gs))
          (map (b g) js @ concat (map (\<lambda>g. map (b g) js) gs)) =
        map2 f (map (a g) js) (map (b g) js) @
        map2 f (concat (map (\<lambda>g. map (a g) js) gs)) (concat (map (\<lambda>g. map (b g) js) gs))"
    by (simp add: zip_append)
  with Cons show ?case by (simp add: map2_same del: zip_append)
qed


lemma mapM_Inr:
  "mapM f xs = Inr ys \<Longrightarrow> length ys = length xs \<and> (\<forall>i < length xs. f (xs ! i) = Inr (ys ! i))"
proof (induction xs arbitrary: ys)
  case Nil
  then show ?case by simp
next
  case (Cons x xs)
  then obtain y ys' where y: "f x = Inr y" and ys': "mapM f xs = Inr ys'" and e: "ys = y # ys'"
    by (auto split: sum.splits)
  from Cons.IH [OF ys'] y e show ?case
    by (auto simp: nth_Cons')
qed

lemma solve_grid_shape:
  assumes "solve_grid sys ls ws Es = Inr res"
  shows "length res = length ws" and "wi < length ws \<Longrightarrow> length (res ! wi) = length Es"
proof -
  from mapM_Inr [OF assms [unfolded solve_grid_def]]
  have l: "length res = length ws"
    and r: "\<forall>i < length ws. mapM (\<lambda>E. ls (sys_A sys (ws ! i) E) (sys_b sys)) Es = Inr (res ! i)"
    by auto
  show "length res = length ws" by (rule l)
  show "length (res ! wi) = length Es" if "wi < length ws"
    using r that mapM_Inr by blast
qed

lemma upper_mask:
  "assign_block (slice0 s) (slice1 s) (\<lambda>p. True) (\<lambda>p. False) =
     (\<lambda>(i, j). i < as_n0 s \<and> as_n0 s \<le> j \<and> j < as_n0 s + as_n1 s)"
  by (auto simp: assign_block_def in_slice_def slice0_def slice1_def)

lemma selected_coordinates:
  assumes "generate_linear_system s me = Inr sys"
  shows "bool_index (sys_transition_list sys) (map \<rho> (sys_r_list sys)) =
           map \<rho> (upper_block (as_n0 s) (as_n1 s))"
proof -
  let ?rl = "matrix2list (as_n0 s + as_n1 s) (\<lambda>p. p)"
  let ?m = "\<lambda>(i, j). i < as_n0 s \<and> as_n0 s \<le> j \<and> j < as_n0 s + as_n1 s"
  from assms have rl: "sys_r_list sys = ?rl"
    and tl: "sys_transition_list sys = matrix2list (as_n0 s + as_n1 s) ?m"
    by (auto simp: generate_linear_system_def Let_def total_levels_def upper_mask
        split: if_splits)
  have "sys_transition_list sys = map ?m ?rl"
    unfolding tl by (rule matrix2list_map)
  then show ?thesis
    unfolding rl by (simp only: bool_index_map transition_symbols)
qed

lemma population_coordinates:
  "take n1 (drop n0 (map \<rho> (matrix2list (n0 + n1) (\<lambda>p. p)))) =
     map (\<lambda>k. \<rho> (n0 + k, n0 + k)) [0..<n1]"
proof -
  define rest where "rest =
     concat (map (\<lambda>i. map (\<lambda>j. (i, j)) [i + 1..<n0 + n1]) [0..<n0 + n1]) @
     concat (map (\<lambda>i. map (\<lambda>j. (j, i)) [i + 1..<n0 + n1]) [0..<n0 + n1])"
  have m: "matrix2list (n0 + n1) (\<lambda>p. p) = map (\<lambda>i. (i, i)) [0..<n0 + n1] @ rest"
    by (simp add: matrix2list_closed rest_def)
  have "[0..<n0 + n1] = [0..<n0] @ [n0..<n0 + n1]"
    by (metis le_add1 upt_add_eq_append zero_le add_0)
  then have "map \<rho> (matrix2list (n0 + n1) (\<lambda>p. p)) =
      map (\<lambda>i. \<rho> (i, i)) [0..<n0] @ map (\<lambda>i. \<rho> (i, i)) [n0..<n0 + n1] @ map \<rho> rest"
    unfolding m by (simp add: comp_def del: upt_Suc)
  then have "take n1 (drop n0 (map \<rho> (matrix2list (n0 + n1) (\<lambda>p. p)))) =
      map (\<lambda>i. \<rho> (i, i)) [n0..<n0 + n1]"
    by (simp del: upt_Suc)
  also have "\<dots> = map (\<lambda>k. \<rho> (n0 + k, n0 + k)) [0..<n1]"
    by (simp add: upt_shift comp_def del: upt_Suc)
  finally show ?thesis .
qed


lemma weights_sum:
  fixes \<rho> :: rho
  assumes "ei < length E0"
  shows "sum_list (map2 (\<lambda>xm krow. xm * of_real (krow ! ei))
           (map \<rho> (upper_block n0 n1))
           (map (\<lambda>dm. map (\<lambda>E. dm / E / eps) E0) (ravel n0 n1 dme))) =
         (\<Sum>g\<leftarrow>[0..<n0]. \<Sum>e\<leftarrow>[0..<n1].
            \<rho> (g, n0 + e) * of_real (dme (g, e) / (E0 ! ei * eps)))"
proof -
  have a: "map \<rho> (upper_block n0 n1) =
      concat (map (\<lambda>g. map (\<lambda>e. \<rho> (g, n0 + e)) [0..<n1]) [0..<n0])"
    by (simp add: upper_block_def map_concat comp_def del: upt_Suc)
  have b: "map (\<lambda>dm. map (\<lambda>E. dm / E / eps) E0) (ravel n0 n1 dme) =
      concat (map (\<lambda>g. map (\<lambda>e. map (\<lambda>E. dme (g, e) / E / eps) E0) [0..<n1]) [0..<n0])"
    by (simp add: ravel_def map_concat comp_def del: upt_Suc)
  show ?thesis
    unfolding a b sum_list_map2_concat
    using assms by (simp add: divide_divide_eq_left del: upt_Suc)
qed

text \<open>
  On a grid with a single detuning or a single amplitude, \<open>solve\<close> returns what the
  specification says: for a solution that is the coordinate vector of \<open>\<rho>\<close>, the real
  part of the sum of the excited populations, and \<open>spec_chi\<close>, in which only the
  coherences above the diagonal occur.
\<close>

lemma solve_one_dimensional:
  assumes gls: "generate_linear_system s me = Inr sys"
    and run: "solve ph s sys ls (beam0 # bs) = Inr (pop, chi)"
    and one: "length (b_w beam0) = 1 \<or> length (b_E beam0) = 1"
    and wi: "wi < length (b_w beam0)" and ei: "ei < length (b_E beam0)"
    and grid: "solve_grid sys ls (b_w beam0) (b_E beam0) = Inr res"
    and x: "res ! wi ! ei = map \<rho> (sys_r_list sys)"
    and ab: "as_abundance s = Some ab"
  shows "pop ! wi ! ei = Re (\<Sum>k\<leftarrow>[0..<as_n1 s]. \<rho> (as_n0 s + k, as_n0 s + k)) \<and>
         chi ! wi ! ei = spec_chi ph s ab \<rho> (b_E beam0 ! ei)"
proof -
  define k_alt where "k_alt = map (\<lambda>dm. map (\<lambda>E. dm / E / c_epsilon_0 ph) (b_E beam0))
                                 (ravel (as_n0 s) (as_n1 s) (as_dme s))"
  have ne: "b_w beam0 \<noteq> []" "b_E beam0 \<noteq> []"
    using wi ei by auto
  have lr: "length res = length (b_w beam0)" "length (res ! wi) = length (b_E beam0)"
    using solve_grid_shape [OF grid] wi by auto
  from run have pop: "pop = map (map (\<lambda>x. Re (sum_list (take (as_n1 s) (drop (as_n0 s) x))))) res"
    and chi: "chi = map (map (\<lambda>(x, ei). of_real (ab * 2) *
                      sum_list (map2 (\<lambda>xm krow. xm * of_real (krow ! ei))
                        (bool_index (sys_transition_list sys) x) k_alt)))
                 (map (\<lambda>row. zip row [0..<length (b_E beam0)]) res)"
    using one ne by (auto simp: solve_def grid ab Let_def k_alt_def)
  from gls have rl: "sys_r_list sys = matrix2list (as_n0 s + as_n1 s) (\<lambda>p. p)"
    by (auto simp: generate_linear_system_def Let_def total_levels_def split: if_splits)
  have p: "pop ! wi ! ei = Re (\<Sum>k\<leftarrow>[0..<as_n1 s]. \<rho> (as_n0 s + k, as_n0 s + k))"
    using wi ei lr by (simp add: pop x rl population_coordinates)
  have "chi ! wi ! ei = of_real (ab * 2) *
      sum_list (map2 (\<lambda>xm krow. xm * of_real (krow ! ei))
        (bool_index (sys_transition_list sys) (map \<rho> (sys_r_list sys))) k_alt)"
    using wi ei lr by (simp add: chi x)
  also have "\<dots> = spec_chi ph s ab \<rho> (b_E beam0 ! ei)"
    unfolding selected_coordinates [OF gls] k_alt_def weights_sum [OF ei] spec_chi_def
    by (simp add: mult.commute)
  finally show ?thesis using p by simp
qed

subsection \<open>A three-level system on a two by two grid\<close>

text \<open>
  A system with one ground and two excited sublevels, of which only the first is coupled
  to the field, its steady state \<open>three_level_x\<close> at detuning 0 and amplitude 1, and a beam
  with two detunings and two amplitudes (both 0 and both 1, so that every grid point has
  this steady state).
\<close>

definition three_level :: atomicSystem where
  "three_level =
     \<lparr>as_n0 = 1, as_n1 = 2, as_Gammas = (\<lambda>p. 2),
      as_dme = (\<lambda>(g, e). if e = 0 then 2000000 * c_h scipy_constants else 0),
      as_energySeparation0 = [0], as_energySeparation1 = [0, 0], as_transit_time = 1 / 2,
      as_abundance = Some 1,
      as_p_dict = \<lparr>pd_Dline = Some ''D1'', pd_K40frac = 1 / 100, pd_K41frac = 673 / 100,
        pd_rb85frac = 7217 / 100, pd_GammaBuf = 0, pd_collisions = None,
        pd_symbolic_transit = False, pd_Gammat = None\<rparr>,
      as_f_resonance = 299792458000000, as_mass = 1, as_DoppT = 1\<rparr>"

definition three_level_x :: "complex list" where
  "three_level_x = [4 / 5, 1 / 5, 0, - (3 * \<i> / 10), 0, 0, 3 * \<i> / 10, 0, 0]"

lemma r_list3: "matrix2list 3 (\<lambda>p. p) =
    [(0, 0), (1, 1), (2, 2), (0, 1), (0, 2), (1, 2), (1, 0), (2, 0), (2, 1)]"
  by code_simp

lemma mask3: "matrix2list 3 (assign_block (0, 1) (1, 3) (\<lambda>p. True) (\<lambda>p. False)) =
    [False, False, False, True, True, False, False, False, False]"
  by code_simp


lemma init_system_master:
  "master_equation_of ph s = Some me \<Longrightarrow> 0 < total_levels s \<Longrightarrow>
   snd (init_system ph s) = generate_linear_system s me"
  by (auto simp: init_system_def master_equation_of_def Let_def generate_linear_system_p_dict
      split: prod.splits sum.splits option.splits)

lemma upt_three:
  "[0..<3] = [0, 1, 2]" "[0..<9] = [0, 1, 2, 3, 4, 5, 6, 7, 8]"
  by code_simp+

lemma replicate_nine: "(replicate 9 (0 :: complex))[0 := 1] = [1, 0, 0, 0, 0, 0, 0, 0, 0]"
  by (simp add: eval_nat_numeral)

definition three_level_H :: "real matrix" where
  "three_level_H = (\<lambda>(a, b). if (a = 0 \<and> b = 1) \<or> (a = 1 \<and> b = 0) then 1 else 0)"

definition three_level_G :: "real matrix" where
  "three_level_G = (\<lambda>(a, b). if b = 0 \<and> a < 3 then (if a = 0 then 1 else 3) else 0)"

definition three_level_me :: "rho \<Rightarrow> complex matrix" where
  "three_level_me = (\<lambda>r (a, b). - \<i> * commutator 3 three_level_H r (a, b)
      - Lindblad_decay 3 three_level_G r (a, b))"

lemma three_level_total: "total_levels three_level = 3"
  by (simp add: total_levels_def three_level_def)

lemma three_level_Hamiltonian: "Hamiltonian_H scipy_constants three_level 0 1 = three_level_H"
  by (intro ext)
    (auto simp: Hamiltonian_H_def madd_def H_rabi_def H_energylevels_def detunings_def
      assign_block_def in_slice_def slice0_def slice1_def zeros_def Let_def three_level_def
      three_level_H_def scipy_constants_def nth_Cons' split: if_splits)

lemma three_level_rates:
  "madd (madd (g_dec three_level) (g_transit three_level tau))
     (assign_block (slice1 three_level) (slice0 three_level)
        (\<lambda>p. pd_GammaBuf (as_p_dict three_level)) zeros)
   = three_level_G"
  by (intro ext)
    (auto simp: madd_def g_dec_def g_transit_def g_transit_numeric_def
      assign_block_def in_slice_def slice0_def slice1_def zeros_def three_level_def
      three_level_G_def)

lemma three_level_fields:
  "pd_collisions (as_p_dict three_level) = None"
  "length (as_energySeparation0 three_level) + length (as_energySeparation1 three_level) = 3"
  "as_transit_time three_level = 1 / 2"
  "as_abundance three_level = Some 1"
  "as_n0 three_level = 1" "as_n1 three_level = 2"
  by (simp_all add: three_level_def)

lemma three_level_master:
  "\<exists>me. master_equation_of scipy_constants three_level = Some me \<and>
        (\<forall>tau. me 0 1 tau = three_level_me)"
  by (simp add: master_equation_of_def generateMatrices_def three_level_total Let_def
      three_level_fields three_level_Hamiltonian three_level_rates three_level_me_def)


definition three_level_eqs :: "rho \<Rightarrow> complex matrix" where
  "three_level_eqs r = (three_level_me r)((0, 0) := - 1 + (\<Sum>i\<leftarrow>[0..<3]. r (i, i)))"

definition three_level_r_list :: "(nat \<times> nat) list" where
  "three_level_r_list = [(0, 0), (1, 1), (2, 2), (0, 1), (0, 2), (1, 2), (1, 0), (2, 0), (2, 1)]"

definition three_level_row :: "nat \<Rightarrow> nat \<Rightarrow> complex" where
  "three_level_row a b =
     sum_list (map2 (*) (map (coeff (\<lambda>r. three_level_eqs r (a, b))) three_level_r_list)
       three_level_x)"

lemma three_level_row_sum:
  "three_level_row a b =
     coeff (\<lambda>r. three_level_eqs r (a, b)) (0, 0) * (4 / 5) +
     coeff (\<lambda>r. three_level_eqs r (a, b)) (1, 1) * (1 / 5) +
     coeff (\<lambda>r. three_level_eqs r (a, b)) (0, 1) * (- (3 * \<i> / 10)) +
     coeff (\<lambda>r. three_level_eqs r (a, b)) (1, 0) * (3 * \<i> / 10)"
  by (simp add: three_level_row_def three_level_r_list_def three_level_x_def)

lemma three_level_rows:
  "three_level_row 0 0 = 1"
  "three_level_row 0 (Suc 0) = 0"
  "three_level_row 0 2 = 0"
  "three_level_row (Suc 0) 0 = 0"
  "three_level_row (Suc 0) (Suc 0) = 0"
  "three_level_row (Suc 0) 2 = 0"
  "three_level_row 2 0 = 0"
  "three_level_row 2 (Suc 0) = 0"
  "three_level_row 2 2 = 0"
  by (simp_all add: three_level_row_sum coeff_def three_level_eqs_def three_level_me_def
      commutator_def Lindblad_decay_apply gain_def damp_def unit_rho_def three_level_H_def
      three_level_G_def upt_three)


text \<open>The steady state of the three-level system as a density matrix.\<close>

definition three_level_rho :: rho where
  "three_level_rho =
     (\<lambda>p. if p = (0, 0) then 4 / 5 else if p = (1, 1) then 1 / 5
          else if p = (0, 1) then - (3 * \<i> / 10) else if p = (1, 0) then 3 * \<i> / 10 else 0)"

definition three_level_beam :: beam where
  "three_level_beam = setE scipy_constants
     \<lparr>b_w = [0, 0], b_profile = ''gaussian'', b_D = 2 * sqrt (1 / pi), b_A = 1, b_P = [],
      b_E = []\<rparr> [1, 1]"

lemma three_level_slices:
  "slice0 three_level = (0, 1)" "slice1 three_level = (1, 3)"
  by (simp_all add: slice0_def slice1_def three_level_fields)

lemma three_level_system:
  "\<exists>sys. snd (init_system scipy_constants three_level) = Inr sys \<and>
     sys_A sys 0 1 = fst (linear_eq_to_matrix 3 three_level_eqs (matrix2list 3 (\<lambda>p. p))) \<and>
     sys_b sys = [1, 0, 0, 0, 0, 0, 0, 0, 0] \<and>
     sys_r_list sys = matrix2list 3 (\<lambda>p. p) \<and>
     sys_transition_list sys =
       [False, False, False, True, True, False, False, False, False]"
proof -
  obtain me where me: "master_equation_of scipy_constants three_level = Some me"
    and mv: "\<And>tau. me 0 1 tau = three_level_me"
    using three_level_master by blast
  have i: "snd (init_system scipy_constants three_level) = generate_linear_system three_level me"
    by (rule init_system_master [OF me]) (simp add: three_level_total)
  have e: "system_matrix three_level me 0 1 = three_level_eqs"
    by (intro ext) (simp add: system_matrix_def mv three_level_eqs_def three_level_total)
  have t: "matrix2list 3 (assign_block (slice0 three_level) (slice1 three_level)
             (\<lambda>p. True) (\<lambda>p. False)) =
           [False, False, False, True, True, False, False, False, False]"
    unfolding three_level_slices by (rule mask3)
  show ?thesis
    unfolding i
    by (simp add: generate_linear_system_def three_level_total Let_def e replicate_nine t)
qed

lemma three_level_solution:
  "is_solution (fst (linear_eq_to_matrix 3 three_level_eqs (matrix2list 3 (\<lambda>p. p))))
     [1, 0, 0, 0, 0, 0, 0, 0, 0] three_level_x"
proof -
  have "mat_vec (fst (linear_eq_to_matrix 3 three_level_eqs (matrix2list 3 (\<lambda>p. p))))
          three_level_x =
        map (\<lambda>e. three_level_row (e div 3) (e mod 3)) [0, 1, 2, 3, 4, 5, 6, 7, 8]"
    by (simp add: mat_vec_def linear_eq_to_matrix_def three_level_row_def r_list3 upt_three
        three_level_r_list_def comp_def del: One_nat_def)
  also have "\<dots> = [1, 0, 0, 0, 0, 0, 0, 0, 0]"
    by (simp add: three_level_rows)
  finally show ?thesis
    by (simp add: is_solution_def three_level_x_def)
qed


text \<open>
  A solver that returns the vector \<open>x\<close> where \<open>x\<close> solves the system it is given, and
  raises otherwise.
\<close>

definition checked_solution ::
  "complex list \<Rightarrow> complex list list \<Rightarrow> complex list \<Rightarrow> py_error + complex list" where
  "checked_solution x A b = (if is_solution A b x then Inr x else Inl LinAlgError)"

lemma three_level_beam_fields:
  "b_w three_level_beam = [0, 0]" "b_E three_level_beam = [1, 1]"
  by (simp_all add: three_level_beam_def setE_def)

lemma three_level_ravel:
  "ravel 1 2 (as_dme three_level) = [2000000 * c_h scipy_constants, 0]"
  by (simp add: ravel_def three_level_def upt_small)

text \<open>
  Claim C3.  The excited population is the real part of the sum of the coordinates in the
  excited range of the diagonal, and only the upper-triangle block enters the
  susceptibility.  But the weights are paired with the coordinates only on a grid with a
  single detuning or a single amplitude.  On the two by two grid of \<open>three_level_beam\<close>
  the three-level system has as many detunings as transition coordinates (two), so
  the product aligns the weights with the detuning axis: at the second detuning every
  coordinate is weighted with \<open>dme.ravel()[1] = 0\<close> and \<open>solve\<close> returns the
  susceptibility 0, although the coherence \<open>\<rho>(0, 1)\<close> of the solution is
  \<open>-3i/10\<close> and its own weight is not zero, so that the sum of the claim is not zero.
\<close>

theorem solve_misweights_susceptibility:
  "\<exists>sys pop chi.
     snd (init_system scipy_constants three_level) = Inr sys \<and>
     is_solution (sys_A sys 0 1) (sys_b sys) three_level_x \<and>
     solve scipy_constants three_level sys (checked_solution three_level_x) [three_level_beam]
       = Inr (pop, chi) \<and>
     three_level_x = map three_level_rho (sys_r_list sys) \<and>
     chi ! 1 ! 0 = 0 \<and>
     spec_chi scipy_constants three_level 1 three_level_rho 1 \<noteq> 0"
proof -
  obtain sys where i: "snd (init_system scipy_constants three_level) = Inr sys"
    and A: "sys_A sys 0 1 = fst (linear_eq_to_matrix 3 three_level_eqs (matrix2list 3 (\<lambda>p. p)))"
    and b: "sys_b sys = [1, 0, 0, 0, 0, 0, 0, 0, 0]"
    and rl: "sys_r_list sys = matrix2list 3 (\<lambda>p. p)"
    and tl: "sys_transition_list sys =
       [False, False, False, True, True, False, False, False, False]"
    using three_level_system by blast
  have sol: "is_solution (sys_A sys 0 1) (sys_b sys) three_level_x"
    unfolding A b by (rule three_level_solution)
  have grid: "solve_grid sys (checked_solution three_level_x) [0, 0] [1, 1] =
      Inr [[three_level_x, three_level_x], [three_level_x, three_level_x]]"
    by (simp add: solve_grid_def checked_solution_def sol)
  have sel: "bool_index [False, False, False, True, True, False, False, False, False]
       three_level_x = [- (3 * \<i> / 10), 0]"
    by (simp add: bool_index_def three_level_x_def)
  have run: "\<exists>pop chi. solve scipy_constants three_level sys (checked_solution three_level_x)
      [three_level_beam] = Inr (pop, chi) \<and> chi ! 1 ! 0 = 0"
    by (simp add: solve_def three_level_beam_fields grid Let_def three_level_ravel
        three_level_fields tl upt_small sel del: One_nat_def)
  have x: "three_level_x = map three_level_rho (sys_r_list sys)"
    by (simp add: rl r_list3 three_level_x_def three_level_rho_def)
  have s: "spec_chi scipy_constants three_level 1 three_level_rho 1 \<noteq> 0"
    by (simp add: spec_chi_def three_level_def upt_small three_level_rho_def
        scipy_constants_def)
  from i sol run x s show ?thesis by blast
qed

section \<open>The Doppler average\<close>























end
